theory Spec2Isabelle
  imports Main
begin

section \<open>Python strings\<close>

text \<open>
  A Python \<open>str\<close> is modelled as a \<open>string\<close> holding its UTF-8 bytes, so the
  emoji of the program's messages are byte sequences. Substring tests, prefixes and
  replacement agree with Python's on well-formed UTF-8.
\<close>

definition startswith :: "string \<Rightarrow> string \<Rightarrow> bool" where
  "startswith s p = (take (length p) s = p)"

definition endswith :: "string \<Rightarrow> string \<Rightarrow> bool" where
  "endswith s p = (length p \<le> length s \<and> drop (length s - length p) s = p)"

text \<open>\<open>py_in n s\<close> is Python's \<open>n in s\<close> on strings: \<open>n\<close> occurs in \<open>s\<close> as a
  contiguous run.\<close>

fun py_in :: "string \<Rightarrow> string \<Rightarrow> bool" where
  "py_in n [] = (n = [])"
| "py_in n (c # cs) = (startswith (c # cs) n \<or> py_in n cs)"

text \<open>\<open>str.replace(old, new)\<close>: every non-overlapping occurrence, scanning from the
  left; an empty \<open>old\<close> matches before every character and at the end.\<close>

function py_replace :: "string \<Rightarrow> string \<Rightarrow> string \<Rightarrow> string" where
  "py_replace [] old new = (if old = [] then new else [])"
| "py_replace (c # cs) old new =
     (if old = [] then new @ concat (map (\<lambda>x. x # new) (c # cs))
      else if startswith (c # cs) old
        then new @ py_replace (drop (length old) (c # cs)) old new
      else c # py_replace cs old new)"
  by pat_completeness auto
termination
  by (relation "measure (\<lambda>(s, old, new). length s)") auto

text \<open>\<open>sep.join(xs)\<close>.\<close>

fun py_join :: "string \<Rightarrow> string list \<Rightarrow> string" where
  "py_join sep [] = []"
| "py_join sep [x] = x"
| "py_join sep (x # y # ys) = x @ sep @ py_join sep (y # ys)"

text \<open>The ASCII white space that \<open>str.strip()\<close> removes (the white space beyond
  ASCII is not told apart in the byte model).\<close>

definition isspace :: "char \<Rightarrow> bool" where
  "isspace c = (c \<in> set [CHR 0x20, CHR 0x09, CHR 0x0A, CHR 0x0B, CHR 0x0C, CHR 0x0D,
                         CHR 0x1C, CHR 0x1D, CHR 0x1E, CHR 0x1F])"

definition py_strip :: "string \<Rightarrow> string" where
  "py_strip s = rev (dropWhile isspace (rev (dropWhile isspace s)))"

definition rstrip_char :: "char \<Rightarrow> string \<Rightarrow> string" where
  "rstrip_char c s = rev (dropWhile (\<lambda>x. x = c) (rev s))"

text \<open>\<open>str(n)\<close> for integers.\<close>

fun show_nat :: "nat \<Rightarrow> string" where
  "show_nat n =
     (if n < 10 then [''0123456789'' ! n]
      else show_nat (n div 10) @ [''0123456789'' ! (n mod 10)])"

declare show_nat.simps [simp del]

definition show_int :: "int \<Rightarrow> string" where
  "show_int i = (if i < 0 then ''-'' @ show_nat (nat (- i)) else show_nat (nat i))"

text \<open>\<open>repr(s)\<close> for a string: single quotes unless the string holds a single quote
  and no double quote; backslash, the quote and the ASCII control characters are
  escaped, every other byte stands for itself.\<close>

definition squote :: char where
  "squote = CHR 0x27"

definition dquote :: char where
  "dquote = CHR 0x22"

definition backslash :: char where
  "backslash = CHR 0x5C"

definition hex2 :: "nat \<Rightarrow> string" where
  "hex2 n = [''0123456789abcdef'' ! ((n div 16) mod 16), ''0123456789abcdef'' ! (n mod 16)]"

definition repr_char :: "char \<Rightarrow> char \<Rightarrow> string" where
  "repr_char q c =
     (if c = q \<or> c = backslash then [backslash, c]
      else if c = CHR 0x09 then [backslash, CHR ''t'']
      else if c = CHR 0x0A then [backslash, CHR ''n'']
      else if c = CHR 0x0D then [backslash, CHR ''r'']
      else if of_char c < (32::nat) \<or> of_char c = (127::nat)
        then [backslash, CHR ''x''] @ hex2 (of_char c)
      else [c])"

definition py_repr :: "string \<Rightarrow> string" where
  "py_repr s =
     (let q = (if squote \<in> set s \<and> dquote \<notin> set s then dquote else squote)
      in [q] @ concat (map (repr_char q) s) @ [q])"

text \<open>\<open>repr\<close> of a list of strings, which is what \<open>'%s' % cmd\<close> prints.\<close>

definition py_repr_list :: "string list \<Rightarrow> string" where
  "py_repr_list xs = ''['' @ py_join '', '' (map py_repr xs) @ '']''"

section \<open>Paths (\<open>posixpath\<close>)\<close>

definition slash :: char where
  "slash = CHR ''/''"

text \<open>\<open>os.path.join(a, b)\<close> for two components.\<close>

definition path_join :: "string \<Rightarrow> string \<Rightarrow> string" where
  "path_join a b =
     (if startswith b [slash] then b
      else if a = [] \<or> endswith a [slash] then a @ b
      else a @ [slash] @ b)"

text \<open>\<open>os.path.dirname(p)\<close>: everything up to the last slash, without trailing
  slashes unless it is slashes only.\<close>

definition dirname :: "string \<Rightarrow> string" where
  "dirname p =
     (let head = rev (dropWhile (\<lambda>c. c \<noteq> slash) (rev p))
      in if head \<noteq> [] \<and> head \<noteq> replicate (length head) slash
         then rstrip_char slash head else head)"

definition basename :: "string \<Rightarrow> string" where
  "basename p = rev (takeWhile (\<lambda>c. c \<noteq> slash) (rev p))"

section \<open>The world outside the program\<close>

text \<open>
  Everything the program reaches outside itself is a field of the world. The file
  system, the repositories in it and the hosting service are \<open>fs\<close>: the directories
  and files that exist, and \<open>rest\<close> for everything else (file contents, commits,
  remotes, the service's state). External commands and library calls are oracles on
  \<open>fs\<close>: any behaviour of git, of the operating system and of the service is one
  choice of \<open>exec\<close>, \<open>lib\<close> and \<open>mkdtemp\<close>. Three functions of the libraries
  are fields as well: \<open>normalize\<close> is \<open>Style.normalize\<close> of Rich, \<open>meta_error\<close>
  gives the message of the \<open>MarkupError\<close> that Rich raises for the parameters of a
  handler tag it cannot parse, and \<open>signal_name\<close> is the platform's table of signal
  names (\<open>signal.Signals\<close>).
\<close>

record 'r fsys =
  dirs :: "string set"
  files :: "string set"
  rest :: 'r

text \<open>What a child process does: it exits with a status and its standard output, or
  it cannot be started (\<open>subprocess\<close> raises \<open>OSError\<close>).\<close>

datatype presult = Exited int string | ExecError string

text \<open>The library calls that change the world: \<open>os.makedirs\<close>, GitPython,
  \<open>shutil\<close>, \<open>os.remove\<close> and the hosting API (PyGithub).\<close>

datatype libcall =
    Makedirs string
  | CloneFrom string string string
  | OpenRepo string
  | CopyTree string string
  | Copy2 string string
  | RmTree string
  | Remove string
  | GitAdd string
  | IndexCommit string string
  | GetRemote string string
  | RemotePush string
  | GetGitRef string string
  | RefDelete string string

text \<open>The exceptions of the program. \<open>OtherException\<close> is any \<open>Exception\<close> that is
  not one of the two others (\<open>OSError\<close>, \<open>GitCommandError\<close>,
  \<open>GithubException\<close>, the \<open>MarkupError\<close> of Rich), with its message.\<close>

datatype exn = CalledProcessError "string list" int | EOFError | OtherException string

datatype 'a res = Ok 'a | Raise exn

record 'r world =
  fs :: "'r fsys"
  exec :: "string list \<Rightarrow> 'r fsys \<Rightarrow> presult \<times> 'r fsys"
  lib :: "libcall \<Rightarrow> 'r fsys \<Rightarrow> string option \<times> 'r fsys"
  mkdtemp :: "string \<Rightarrow> 'r fsys \<Rightarrow> (string + string) \<times> 'r fsys"
  abspath :: "string \<Rightarrow> string"
  normalize :: "string \<Rightarrow> string"
  meta_error :: "string \<Rightarrow> string option"
  signal_name :: "nat \<Rightarrow> string option"
  answers :: "string list"
  log_writable :: bool
  console :: "string list"
  logfile :: "string list"
  launched :: "(string list \<times> presult) list"
  libcalls :: "libcall list"

type_synonym ('a, 'r) io = "'r world \<Rightarrow> 'a res \<times> 'r world"

definition io_bind :: "('a, 'r) io \<Rightarrow> ('a \<Rightarrow> ('b, 'r) io) \<Rightarrow> ('b, 'r) io" where
  "io_bind m f w = (case m w of (Ok a, w') \<Rightarrow> f a w' | (Raise e, w') \<Rightarrow> (Raise e, w'))"

definition io_ret :: "'a \<Rightarrow> ('a, 'r) io" where
  "io_ret a w = (Ok a, w)"

text \<open>An effect that cannot fail, as a step of a sequence.\<close>

definition io_do :: "('r world \<Rightarrow> 'r world) \<Rightarrow> (unit, 'r) io" where
  "io_do f w = (Ok (), f w)"

definition io_seq :: "('a, 'r) io \<Rightarrow> ('b, 'r) io \<Rightarrow> ('b, 'r) io" where
  "io_seq m n = io_bind m (\<lambda>_. n)"

text \<open>
  \<open>str(e)\<close>. For \<open>CalledProcessError\<close> the command is printed as the list it is. A
  negative status is a signal: Python prints the member of \<open>signal.Signals\<close> with
  that number, as \<open><Signals.SIGKILL: 9>\<close>, and the number alone when the platform
  has no such signal. \<open>sg\<close> is the platform's table.
\<close>

definition str_exn :: "(nat \<Rightarrow> string option) \<Rightarrow> exn \<Rightarrow> string" where
  "str_exn sg e =
     (case e of
        CalledProcessError cmd rc \<Rightarrow>
          (if rc < 0
           then (case sg (nat (- rc)) of
                   Some name \<Rightarrow>
                     ''Command '' @ [squote] @ py_repr_list cmd @ [squote] @ '' died with <Signals.''
                       @ name @ '': '' @ show_int (- rc) @ ''>.''
                 | None \<Rightarrow>
                     ''Command '' @ [squote] @ py_repr_list cmd @ [squote]
                       @ '' died with unknown signal '' @ show_int (- rc) @ ''.'')
           else ''Command '' @ [squote] @ py_repr_list cmd @ [squote]
                  @ '' returned non-zero exit status '' @ show_int rc @ ''.'')
      | EOFError \<Rightarrow> ''EOF when reading a line''
      | OtherException m \<Rightarrow> m)"

section \<open>Console markup (Rich)\<close>

text \<open>
  \<open>console.print\<close> reads its argument as markup and raises \<open>MarkupError\<close> when a
  closing tag closes nothing. A tag is what the pattern
  \<open>(\\*)\[([a-z#/@][^[]*?)]\<close> of \<open>rich.markup\<close> matches: an opening bracket, one
  of the characters that may start a tag, then everything up to the next closing
  bracket, with no opening bracket in between; an odd number of backslashes in front
  of it escapes it. \<open>markup_scan\<close> reads the string once and gives the tags with the
  positions that the error messages name, which count characters, not bytes: a
  continuation byte of UTF-8 does not advance the position.
\<close>

definition tag_start :: "char \<Rightarrow> bool" where
  "tag_start c =
     ((97 \<le> (of_char c :: nat) \<and> (of_char c :: nat) \<le> 122)
      \<or> c = CHR ''#'' \<or> c = CHR ''/'' \<or> c = CHR ''@'')"

definition is_cont :: "char \<Rightarrow> bool" where
  "is_cont c = (128 \<le> (of_char c :: nat) \<and> (of_char c :: nat) < 192)"

text \<open>
  The scanner is outside a tag, after \<open>k\<close> backslashes in a row; or just behind an
  opening bracket at position \<open>q\<close> that had \<open>k\<close> backslashes in front; or inside
  the text \<open>acc\<close> of a possible tag, which ends in \<open>j\<close> backslashes.
\<close>

datatype scan_state = Outside nat | Opened nat nat | Inside nat nat string nat

fun markup_scan :: "scan_state \<Rightarrow> nat \<Rightarrow> string \<Rightarrow> (nat \<times> string) list" where
  "markup_scan st i [] = []"
| "markup_scan (Outside k) i (c # cs) =
     (if c = backslash then markup_scan (Outside (Suc k)) (if is_cont c then i else Suc i) cs
      else if c = CHR ''[''
        then markup_scan (Opened i k) (if is_cont c then i else Suc i) cs
      else markup_scan (Outside 0) (if is_cont c then i else Suc i) cs)"
| "markup_scan (Opened q k) i (c # cs) =
     (if tag_start c
        then markup_scan (Inside q k [c] 0) (if is_cont c then i else Suc i) cs
      else if c = CHR ''[''
        then markup_scan (Opened i 0) (if is_cont c then i else Suc i) cs
      else if c = backslash
        then markup_scan (Outside 1) (if is_cont c then i else Suc i) cs
      else markup_scan (Outside 0) (if is_cont c then i else Suc i) cs)"
| "markup_scan (Inside q k acc j) i (c # cs) =
     (if c = CHR '']''
        then (if even k then [(q, acc)] else [])
               @ markup_scan (Outside 0) (if is_cont c then i else Suc i) cs
      else if c = CHR ''[''
        then markup_scan (Opened i j) (if is_cont c then i else Suc i) cs
      else if c = backslash
        then markup_scan (Inside q k (acc @ [c]) (Suc j)) (if is_cont c then i else Suc i) cs
      else markup_scan (Inside q k (acc @ [c]) 0) (if is_cont c then i else Suc i) cs)"

text \<open>
  \<open>render\<close> of \<open>rich.markup\<close> keeps a stack of the open tags, each with its
  normalised name and its parameters (the text behind the first \<open>=\<close>, if any). A
  closing tag with a name takes the nearest open tag of that name off the stack, one
  without a name the top of the stack; when there is none, \<open>MarkupError\<close>. Closing a
  handler tag (its name starts with \<open>@\<close>) parses its parameters.
\<close>

fun pop_style ::
  "string \<Rightarrow> (string \<times> string option) list
     \<Rightarrow> ((string \<times> string option) \<times> (string \<times> string option) list) option" where
  "pop_style style_name [] = None"
| "pop_style style_name (t # stack) =
     (if fst t = style_name then Some (t, stack)
      else (case pop_style style_name stack of
              None \<Rightarrow> None
            | Some (found, stack') \<Rightarrow> Some (found, t # stack')))"

definition close_meta :: "(string \<Rightarrow> string option) \<Rightarrow> string \<times> string option \<Rightarrow> string option" where
  "close_meta me open_tag =
     (case snd open_tag of
        None \<Rightarrow> None
      | Some parameters \<Rightarrow>
          if parameters \<noteq> [] \<and> startswith (fst open_tag) ''@'' then me parameters else None)"

fun render_tags ::
  "(string \<Rightarrow> string) \<Rightarrow> (string \<Rightarrow> string option) \<Rightarrow> (string \<times> string option) list
     \<Rightarrow> (nat \<times> string) list \<Rightarrow> string option" where
  "render_tags nz me stack [] = None"
| "render_tags nz me stack ((position, tag_text) # tags) =
     (if startswith tag_text ''/'' then
        (if py_strip (tl (takeWhile (\<lambda>c. c \<noteq> CHR ''='') tag_text)) \<noteq> [] then
           (case pop_style (nz (py_strip (tl (takeWhile (\<lambda>c. c \<noteq> CHR ''='') tag_text)))) stack of
              None \<Rightarrow>
                Some (''closing tag '' @ [squote] @ ''['' @ tag_text @ '']'' @ [squote]
                      @ '' at position '' @ show_nat position
                      @ '' doesn'' @ [squote] @ ''t match any open tag'')
            | Some (open_tag, stack') \<Rightarrow>
                (case close_meta me open_tag of
                   Some m \<Rightarrow> Some m
                 | None \<Rightarrow> render_tags nz me stack' tags))
         else
           (case stack of
              [] \<Rightarrow>
                Some (''closing tag '' @ [squote] @ ''[/]'' @ [squote] @ '' at position ''
                      @ show_nat position @ '' has nothing to close'')
            | open_tag # stack' \<Rightarrow>
                (case close_meta me open_tag of
                   Some m \<Rightarrow> Some m
                 | None \<Rightarrow> render_tags nz me stack' tags)))
      else
        render_tags nz me
          ((nz (takeWhile (\<lambda>c. c \<noteq> CHR ''='') tag_text),
            if CHR ''='' \<in> set tag_text
            then Some (tl (dropWhile (\<lambda>c. c \<noteq> CHR ''='') tag_text)) else None) # stack)
          tags)"

text \<open>The message of the \<open>MarkupError\<close> that printing \<open>s\<close> raises, if it raises.\<close>

definition markup_error :: "'r world \<Rightarrow> string \<Rightarrow> string option" where
  "markup_error w s = render_tags (normalize w) (meta_error w) [] (markup_scan (Outside 0) 0 s)"

subsection \<open>Console, prompt, processes, library\<close>

text \<open>\<open>console.print(s)\<close>: \<open>MarkupError\<close> when the markup of \<open>s\<close> is broken;
  otherwise the console gets \<open>s\<close>. It holds the strings handed to it, oldest first,
  as they are before Rich renders them.\<close>

definition console_print :: "string \<Rightarrow> (unit, 'r) io" where
  "console_print s w =
     (case markup_error w s of
        Some m \<Rightarrow> (Raise (OtherException m), w)
      | None \<Rightarrow> (Ok (), w\<lparr>console := console w @ [s]\<rparr>))"

text \<open>\<open>Prompt.ask(prompt, default=d)\<close> of Rich: the prompt is shown, a line is read
  (\<open>EOFError\<close> when there is none); an empty line gives the default when there is
  one, any other line is returned stripped. The prompts of this program are
  constant texts without a bracket, which always render.\<close>

definition ask :: "string \<Rightarrow> string option \<Rightarrow> (string, 'r) io" where
  "ask prompt dflt w =
     (let w1 = w\<lparr>console := console w @ [prompt]\<rparr>
      in case answers w of
           [] \<Rightarrow> (Raise EOFError, w1)
         | a # as \<Rightarrow>
             (Ok (case dflt of
                    Some d \<Rightarrow> if a = [] then d else py_strip a
                  | None \<Rightarrow> py_strip a),
              w1\<lparr>answers := as\<rparr>))"

text \<open>\<open>subprocess.run(cmd, check=c)\<close>: the process is launched and recorded; with
  \<open>check\<close> a non-zero status raises \<open>CalledProcessError\<close>.\<close>

definition subprocess_run :: "string list \<Rightarrow> bool \<Rightarrow> (int, 'r) io" where
  "subprocess_run cmd check w =
     (case exec w cmd (fs w) of
        (r, fs') \<Rightarrow>
          (let w' = w\<lparr>fs := fs', launched := launched w @ [(cmd, r)]\<rparr>
           in case r of
                ExecError m \<Rightarrow> (Raise (OtherException m), w')
              | Exited rc out \<Rightarrow>
                  if check \<and> rc \<noteq> 0 then (Raise (CalledProcessError cmd rc), w')
                  else (Ok rc, w')))"

text \<open>\<open>subprocess.check_output(cmd, text=True)\<close>.\<close>

definition check_output :: "string list \<Rightarrow> (string, 'r) io" where
  "check_output cmd w =
     (case exec w cmd (fs w) of
        (r, fs') \<Rightarrow>
          (let w' = w\<lparr>fs := fs', launched := launched w @ [(cmd, r)]\<rparr>
           in case r of
                ExecError m \<Rightarrow> (Raise (OtherException m), w')
              | Exited rc out \<Rightarrow>
                  if rc \<noteq> 0 then (Raise (CalledProcessError cmd rc), w')
                  else (Ok out, w')))"

text \<open>A library call: recorded, then it returns or raises.\<close>

definition lib_call :: "libcall \<Rightarrow> (unit, 'r) io" where
  "lib_call c w =
     (case lib w c (fs w) of
        (r, fs') \<Rightarrow>
          (let w' = w\<lparr>fs := fs', libcalls := libcalls w @ [c]\<rparr>
           in case r of
                None \<Rightarrow> (Ok (), w')
              | Some m \<Rightarrow> (Raise (OtherException m), w')))"

definition isdir :: "'r world \<Rightarrow> string \<Rightarrow> bool" where
  "isdir w p = (p \<in> dirs (fs w))"

definition path_exists :: "'r world \<Rightarrow> string \<Rightarrow> bool" where
  "path_exists w p = (p \<in> dirs (fs w) \<or> p \<in> files (fs w))"

section \<open>Configuration and messages\<close>

definition REPO_PATH :: string where
  "REPO_PATH = ''/home/gost/all-project/git-all/7heBlackLand.github.io''"

definition DEFAULT_COMMIT_MSG :: string where
  "DEFAULT_COMMIT_MSG = ''Welcome to Blackland''"

definition NL :: string where
  "NL = [CHR 0x0A]"

definition warning_sign :: string where
  "warning_sign = [CHR 0xE2, CHR 0x9A, CHR 0xA0, CHR 0xEF, CHR 0xB8, CHR 0x8F]"

definition cross_mark :: string where
  "cross_mark = [CHR 0xE2, CHR 0x9D, CHR 0x8C]"

definition check_mark :: string where
  "check_mark = [CHR 0xE2, CHR 0x9C, CHR 0x85]"

definition rocket :: string where
  "rocket = [CHR 0xF0, CHR 0x9F, CHR 0x9A, CHR 0x80]"

definition point_right :: string where
  "point_right = [CHR 0xF0, CHR 0x9F, CHR 0x91, CHR 0x89]"

definition waving_hand :: string where
  "waving_hand = [CHR 0xF0, CHR 0x9F, CHR 0x91, CHR 0x8B]"

definition globe :: string where
  "globe = [CHR 0xF0, CHR 0x9F, CHR 0x8C, CHR 0x90]"

definition wastebasket :: string where
  "wastebasket = [CHR 0xF0, CHR 0x9F, CHR 0x97, CHR 0x91, CHR 0xEF, CHR 0xB8, CHR 0x8F]"

definition arrows_refresh :: string where
  "arrows_refresh = [CHR 0xF0, CHR 0x9F, CHR 0x94, CHR 0x84]"

definition arrow_up :: string where
  "arrow_up = [CHR 0xE2, CHR 0xAC, CHR 0x86, CHR 0xEF, CHR 0xB8, CHR 0x8F]"

definition info_sign :: string where
  "info_sign = [CHR 0xE2, CHR 0x84, CHR 0xB9, CHR 0xEF, CHR 0xB8, CHR 0x8F]"

definition arrows_repeat :: string where
  "arrows_repeat = [CHR 0xF0, CHR 0x9F, CHR 0x94, CHR 0x81]"

definition open_folder :: string where
  "open_folder = [CHR 0xF0, CHR 0x9F, CHR 0x93, CHR 0x82]"

definition em_dash :: string where
  "em_dash = [CHR 0xE2, CHR 0x80, CHR 0x94]"

section \<open>Logging helper\<close>

text \<open>
  \<open>log_action\<close> appends one line to the log; any failure of the write is swallowed.
  The log file and its directory are kept apart from \<open>fs\<close>, an entry is the action
  text (the time stamp in front of it is left out), and \<open>log_writable\<close> says whether
  the write succeeds.
\<close>

definition log_action :: "string \<Rightarrow> 'r world \<Rightarrow> 'r world" where
  "log_action action_text w =
     (if log_writable w then w\<lparr>logfile := logfile w @ [action_text]\<rparr> else w)"

section \<open>Local Git Sync Manager\<close>

definition run_shell :: "string list \<Rightarrow> bool \<Rightarrow> (unit, 'r) io" where
  "run_shell cmd silent =
     io_seq (if \<not> silent then console_print (rocket @ '' Running: '' @ py_join '' '' cmd)
             else io_ret ())
    (io_bind (subprocess_run cmd True) (\<lambda>rc. io_ret ()))"

text \<open>The URL handed to \<open>git clone\<close>: the token is put into a plain https URL.\<close>

definition safe_url :: "string \<Rightarrow> string option \<Rightarrow> string" where
  "safe_url repo_url token =
     (case token of
        Some t \<Rightarrow>
          if startswith repo_url ''https://'' \<and> \<not> py_in ''@'' repo_url \<and> t \<noteq> []
          then py_replace repo_url ''https://'' (''https://'' @ t @ ''@'')
          else repo_url
      | None \<Rightarrow> repo_url)"

text \<open>The \<open>try\<close> block of \<open>ensure_local_repo\<close>.\<close>

definition clone_attempt :: "string \<Rightarrow> string \<Rightarrow> string option \<Rightarrow> (bool, 'r) io" where
  "clone_attempt repo_path repo_url token =
     io_seq (lib_call (Makedirs (dirname repo_path)))
    (io_seq (run_shell [''git'', ''clone'', safe_url repo_url token, repo_path] False)
    (io_seq (console_print (check_mark @ '' Repository cloned successfully into: [green]''
               @ repo_path @ ''[/green]'' @ NL))
    (io_seq (io_do (log_action (''Cloned repository from '' @ repo_url @ '' to '' @ repo_path)))
    (io_ret True))))"

text \<open>The handler of that block catches \<open>CalledProcessError\<close> only; its own print
  can raise, and then nothing is logged.\<close>

definition ensure_local_repo :: "string \<Rightarrow> string option \<Rightarrow> string option \<Rightarrow> (bool, 'r) io" where
  "ensure_local_repo repo_path default_clone_url token w =
     (if isdir w repo_path \<and> isdir w (path_join repo_path ''.git'') then (Ok True, w)
      else
        io_seq (console_print (warning_sign @ '' Repository not found at: [yellow]''
                  @ repo_path @ ''[/yellow]'' @ NL))
       (io_seq (console_print ''1) Clone a new repository'')
       (io_seq (console_print ''2) Cancel / Exit'')
       (io_bind (ask (NL @ point_right @ '' Enter your choice (1-2)'') (Some ''2'')) (\<lambda>a.
          if py_strip a \<noteq> ''1''
          then io_seq (console_print (waving_hand @ '' Cancelled by user. Exiting local sync.''))
                 (io_ret False)
          else
            io_bind (ask (NL @ globe @ '' Enter GitHub repository URL to clone (HTTPS preferred)'')
                       None) (\<lambda>repo_url.
              if repo_url = []
              then io_seq (console_print (cross_mark @ '' No URL provided. Exiting...''))
                     (io_ret False)
              else
                (\<lambda>w5. case clone_attempt repo_path repo_url token w5 of
                   (Raise (CalledProcessError cmd rc), w6) \<Rightarrow>
                     io_seq (console_print (cross_mark @ '' Failed to clone repository: ''
                               @ str_exn (signal_name w6) (CalledProcessError cmd rc)))
                    (io_seq (io_do (log_action (''Failed to clone repository: ''
                               @ str_exn (signal_name w6) (CalledProcessError cmd rc))))
                    (io_ret False)) w6
                 | (r, w6) \<Rightarrow> (r, w6))))))) w)"

definition fix_local_remote_with_token :: "string \<Rightarrow> string \<Rightarrow> (unit, 'r) io" where
  "fix_local_remote_with_token repo_path token w =
     (case check_output [''git'', ''-C'', repo_path, ''remote'', ''get-url'', ''origin''] w of
        (Raise e, w1) \<Rightarrow> (Ok (), w1)
      | (Ok out, w1) \<Rightarrow>
          (let origin_url = py_strip out
           in if startswith origin_url ''https://'' \<and> \<not> py_in ''@'' origin_url
              then
                (let new_url = py_replace origin_url ''https://'' (''https://'' @ token @ ''@'')
                 in case subprocess_run
                           [''git'', ''-C'', repo_path, ''remote'', ''set-url'', ''origin'', new_url]
                           True w1 of
                      (Raise e, w2) \<Rightarrow> (Ok (), w2)
                    | (Ok rc, w2) \<Rightarrow>
                        (Ok (), log_action (''Updated origin remote for '' @ repo_path) w2))
              else (Ok (), w1)))"

text \<open>What one turn of the menu loop does next.\<close>

datatype flow = Continue | Break

definition show_menu_local :: "string \<Rightarrow> (string, 'r) io" where
  "show_menu_local repo_path =
     io_seq (console_print (open_folder @ '' GIT ACTIONS '' @ em_dash
               @ '' Local Repo: [bold]'' @ repo_path @ ''[/bold]''))
    (io_seq (console_print ''1) Pull (update from GitHub)'')
    (io_seq (console_print ''2) Push (upload local changes)'')
    (io_seq (console_print ''3) Sync (pull + push)'')
    (io_seq (console_print ''4) Exit'')
    (io_bind (ask (NL @ point_right @ '' Enter your choice (1-4): '') None)
       (\<lambda>a. io_ret (py_strip a)))))))"

text \<open>The \<open>try\<close> block of the menu loop, for one choice.\<close>

definition menu_try :: "string \<Rightarrow> string \<Rightarrow> (flow, 'r) io" where
  "menu_try repo_path choice =
     (if choice = ''1'' then
        io_seq (console_print (NL @ arrows_refresh @ '' Pulling latest changes...''))
       (io_seq (run_shell [''git'', ''-C'', repo_path, ''pull''] False)
       (io_seq (console_print (check_mark @ '' Repository updated successfully!'' @ NL))
       (io_seq (io_do (log_action (''Pulled latest changes in '' @ repo_path)))
       (io_ret Continue))))
      else if choice = ''2'' then
        io_seq (console_print (NL @ arrow_up @ '' Pushing local changes...''))
       (io_bind (ask ''Commit message (default)'' (Some DEFAULT_COMMIT_MSG)) (\<lambda>commit_msg.
        io_seq (run_shell [''git'', ''-C'', repo_path, ''add'', ''.''] False)
       (io_bind (subprocess_run [''git'', ''-C'', repo_path, ''commit'', ''-m'', commit_msg] False)
          (\<lambda>returncode.
             if returncode = 0 then
               io_seq (run_shell [''git'', ''-C'', repo_path, ''push''] False)
              (io_seq (console_print (check_mark @ '' Successfully pushed to GitHub!'' @ NL))
              (io_seq (io_do (log_action (''Pushed changes in '' @ repo_path
                         @ '' with message: '' @ commit_msg)))
              (io_ret Continue)))
             else
               io_seq (console_print (info_sign
                         @ '' Nothing to commit (working tree clean).'' @ NL))
              (io_seq (io_do (log_action (''Nothing to commit in '' @ repo_path)))
              (io_ret Continue))))))
      else if choice = ''3'' then
        io_seq (console_print (NL @ arrows_repeat
                  @ '' Syncing repository (pull then push)...''))
       (io_seq (run_shell [''git'', ''-C'', repo_path, ''pull''] False)
       (io_bind (ask ''Commit message (default)'' (Some ''Auto sync via Unified Manager''))
          (\<lambda>commit_msg.
        io_seq (run_shell [''git'', ''-C'', repo_path, ''add'', ''.''] False)
       (io_bind (subprocess_run [''git'', ''-C'', repo_path, ''commit'', ''-m'', commit_msg] False)
          (\<lambda>returncode.
             if returncode = 0 then
               io_seq (run_shell [''git'', ''-C'', repo_path, ''push''] False)
              (io_seq (console_print (check_mark @ '' Repository synced successfully!'' @ NL))
              (io_seq (io_do (log_action (''Synced repository '' @ repo_path
                         @ '' with message: '' @ commit_msg)))
              (io_ret Continue)))
             else
               io_seq (console_print (info_sign
                         @ '' Nothing to sync (working tree clean).'' @ NL))
              (io_seq (io_do (log_action (''Nothing to sync in '' @ repo_path)))
              (io_ret Continue)))))))
      else if choice = ''4'' then
        io_seq (console_print (NL @ waving_hand @ '' Exiting local git menu.'' @ NL))
       (io_seq (io_do (log_action (''Exited local git menu for '' @ repo_path)))
       (io_ret Break))
      else
        io_seq (console_print (warning_sign @ '' Invalid choice. Try again.'' @ NL))
       (io_ret Continue))"

text \<open>
  One menu action: the \<open>try\<close> block under its handler, which catches
  \<open>CalledProcessError\<close> only. The handler prints, then logs, then lets the loop go
  on; when its print raises, the log entry is not written and the exception leaves
  the action.
\<close>

definition menu_action :: "string \<Rightarrow> string \<Rightarrow> (flow, 'r) io" where
  "menu_action repo_path choice w =
     (case menu_try repo_path choice w of
        (Raise (CalledProcessError cmd rc), w1) \<Rightarrow>
          io_seq (console_print (cross_mark @ '' Git command failed: ''
                    @ str_exn (signal_name w1) (CalledProcessError cmd rc) @ NL))
         (io_seq (io_do (log_action (''Git command failed for '' @ repo_path @ '': ''
                    @ str_exn (signal_name w1) (CalledProcessError cmd rc))))
         (io_ret Continue)) w1
      | (r, w1) \<Rightarrow> (r, w1))"

text \<open>Setting the commit identity; any failure is a warning only.\<close>

definition configure_identity :: "string \<Rightarrow> (unit, 'r) io" where
  "configure_identity repo_path w =
     (case io_seq (subprocess_run
                     [''git'', ''-C'', repo_path, ''config'', ''user.name'', ''Auto Commit Bot''] True)
                  (subprocess_run
                     [''git'', ''-C'', repo_path, ''config'', ''user.email'',
                      ''autocommit@example.com''] True) w of
        (Raise e, w1) \<Rightarrow>
          console_print (warning_sign
             @ '' Warning: Could not set git identity (non-fatal).'') w1
      | (Ok rc, w1) \<Rightarrow> (Ok (), w1))"

section \<open>Branch operations (hosting API)\<close>

text \<open>A repository handle of the API client, with the attributes the program reads
  from it.\<close>

record repository =
  repo_name :: string
  full_name :: string
  owner_login :: string
  default_branch :: string

definition delete_branch :: "repository \<Rightarrow> (unit, 'r) io" where
  "delete_branch repo =
     io_bind (ask ''Branch name to delete'' None) (\<lambda>branch_name.
       if branch_name = default_branch repo
       then console_print
              ''[yellow]Cannot delete the default branch via this tool. Change default first.[/yellow]''
       else
         (\<lambda>w1. case io_seq (lib_call (GetGitRef (full_name repo) (''heads/'' @ branch_name)))
             (io_seq (lib_call (RefDelete (full_name repo) (''heads/'' @ branch_name)))
             (io_seq (console_print (wastebasket @ '' Deleted branch: '' @ branch_name))
             (io_do (log_action (''Deleted branch '' @ branch_name @ '' in '' @ full_name repo)))))
             w1 of
           (Raise e, w2) \<Rightarrow>
             console_print (''[red]Delete branch failed: '' @ str_exn (signal_name w2) e
               @ ''[/red]'') w2
         | (Ok u, w2) \<Rightarrow> (Ok (), w2)))"

section \<open>Upload through a temporary clone\<close>

definition ignore_list :: "string list" where
  "ignore_list = [''.env'', ''__pycache__'', ''.gitignore'']"

text \<open>The loop over the ignore list: what exists under the scratch directory is
  removed, a directory with \<open>shutil.rmtree\<close>, a file with \<open>os.remove\<close>.\<close>

fun remove_ignored :: "string \<Rightarrow> string list \<Rightarrow> (unit, 'r) io" where
  "remove_ignored temp_dir [] = io_ret ()"
| "remove_ignored temp_dir (ignore_item # items) =
     io_seq (\<lambda>w. let path = path_join temp_dir ignore_item
                  in if path_exists w path
                     then (if isdir w path then lib_call (RmTree path) w
                           else lib_call (Remove path) w)
                     else (Ok (), w))
            (remove_ignored temp_dir items)"

text \<open>The \<open>try\<close> block of \<open>upload_file_to_github\<close>.\<close>

definition upload_try ::
  "repository \<Rightarrow> string \<Rightarrow> string \<Rightarrow> string \<Rightarrow> string \<Rightarrow> string \<Rightarrow> (bool, 'r) io" where
  "upload_try repo file_path branch_name commit_message token temp_dir =
     io_seq (console_print (''[yellow]Cloning repo '' @ repo_name repo @ '' into ''
               @ temp_dir @ ''[/yellow]''))
    (io_seq (lib_call (CloneFrom
               (''https://'' @ token @ ''@github.com/'' @ owner_login repo @ ''/''
                  @ repo_name repo @ ''.git'')
               temp_dir branch_name))
    (io_seq (lib_call (OpenRepo temp_dir))
    (io_seq (\<lambda>w. if isdir w file_path
                  then lib_call (CopyTree file_path
                         (path_join temp_dir (basename (rstrip_char slash file_path)))) w
                  else lib_call (Copy2 file_path
                         (path_join temp_dir (basename file_path))) w)
    (io_seq (remove_ignored temp_dir ignore_list)
    (io_seq (lib_call (GitAdd temp_dir))
    (io_seq (lib_call (IndexCommit temp_dir commit_message))
    (io_seq (lib_call (GetRemote temp_dir ''origin''))
    (io_seq (lib_call (RemotePush temp_dir))
    (io_seq (console_print (''[green]'' @ check_mark @ '' Successfully pushed to ''
               @ repo_name repo @ '':'' @ branch_name @ ''[/green]''))
    (io_seq (io_do (log_action (''Pushed to '' @ full_name repo @ ''@'' @ branch_name
               @ '' with message: '' @ commit_message)))
    (io_ret True)))))))))))"

text \<open>
  The scratch directory is made before the \<open>try\<close>. The handler catches every
  \<open>Exception\<close>, prints it, then logs it and returns \<open>False\<close>; when its print
  raises, nothing is logged and the exception leaves the function. In every case
  the \<open>finally\<close> block removes the scratch directory first, and swallows a failure
  of the removal. \<open>RemotePush\<close> is \<open>origin.push()\<close>, which returns without raising
  when the remote rejects the push: the block then goes on to report success.
\<close>

definition upload_file_to_github ::
  "repository \<Rightarrow> string \<Rightarrow> string \<Rightarrow> string \<Rightarrow> string \<Rightarrow> (bool, 'r) io" where
  "upload_file_to_github repo file_path branch_name commit_message token w =
     (case mkdtemp w ''gh_clone_'' (fs w) of
        (Inl m, fs') \<Rightarrow> (Raise (OtherException m), w\<lparr>fs := fs'\<rparr>)
      | (Inr temp_dir, fs') \<Rightarrow>
          (case (case upload_try repo file_path branch_name commit_message token temp_dir
                        (w\<lparr>fs := fs'\<rparr>) of
                   (Raise e, w1) \<Rightarrow>
                     io_seq (console_print (''[red]Error uploading to GitHub: ''
                               @ str_exn (signal_name w1) e @ ''[/red]''))
                    (io_seq (io_do (log_action (''Error uploading to GitHub: ''
                               @ str_exn (signal_name w1) e)))
                    (io_ret False)) w1
                 | (Ok b, w1) \<Rightarrow> (Ok b, w1)) of
             (r, w2) \<Rightarrow> (r, snd (lib_call (RmTree temp_dir) w2))))"

section \<open>The menu loop\<close>

text \<open>No operation of a menu action gives the user's pending answers back, and the
  menu itself reads one: the loop ends when the input does.\<close>

definition keeps :: "('a, 'r) io \<Rightarrow> bool" where
  "keeps m = (\<forall>w. length (answers (snd (m w))) \<le> length (answers w))"

lemma keeps_bind: "keeps m \<Longrightarrow> (\<And>a. keeps (f a)) \<Longrightarrow> keeps (io_bind m f)"
  unfolding keeps_def io_bind_def
  apply (auto split: prod.splits res.splits)
  apply (metis snd_conv order_trans)
  apply (metis snd_conv)
  done

lemma keeps_seq: "keeps m \<Longrightarrow> keeps n \<Longrightarrow> keeps (io_seq m n)"
  unfolding io_seq_def by (rule keeps_bind)

lemma keeps_if: "keeps a \<Longrightarrow> keeps b \<Longrightarrow> keeps (if c then a else b)"
  by simp

lemma keeps_ret: "keeps (io_ret a)"
  by (simp add: keeps_def io_ret_def)

lemma keeps_print: "keeps (console_print s)"
  by (simp add: keeps_def console_print_def split: option.splits)

lemma keeps_log: "keeps (io_do (log_action s))"
  by (simp add: keeps_def io_do_def log_action_def)

lemma keeps_run: "keeps (subprocess_run c b)"
  by (auto simp add: keeps_def subprocess_run_def Let_def split: prod.splits presult.splits)

lemma keeps_shell: "keeps (run_shell c b)"
  unfolding run_shell_def
  by (intro keeps_seq keeps_bind keeps_if keeps_print keeps_ret keeps_run)

lemma keeps_ask: "keeps (ask p d)"
  by (auto simp add: keeps_def ask_def Let_def split: list.splits)

lemma keeps_try: "keeps (menu_try p c)"
  unfolding menu_try_def
  by (intro keeps_if keeps_bind keeps_seq keeps_ret keeps_print keeps_log keeps_run
      keeps_shell keeps_ask)

lemma keeps_action: "keeps (menu_action p c)"
proof -
  have "length (answers (snd (menu_action p c w))) \<le> length (answers w)" for w :: "'a world"
  proof -
    have t: "length (answers (snd (menu_try p c w))) \<le> length (answers w)"
      by (rule keeps_try [unfolded keeps_def, rule_format])
    obtain r w1 where e: "menu_try p c w = (r, w1)" by (cases "menu_try p c w")
    have h: "length (answers (snd (h w1))) \<le> length (answers w1)"
      if "h = io_seq (console_print x) (io_seq (io_do (log_action y)) (io_ret Continue))"
      for h :: "(flow, 'a) io" and x y
      unfolding that
      by (rule keeps_seq [OF keeps_print keeps_seq [OF keeps_log keeps_ret],
            unfolded keeps_def, rule_format])
    show ?thesis
    proof (cases r)
      case (Ok a)
      then show ?thesis using t e by (simp add: menu_action_def)
    next
      case (Raise x)
      then show ?thesis
        using t e h [OF refl] by (cases x) (auto simp: menu_action_def intro: order_trans)
    qed
  qed
  thus ?thesis by (simp add: keeps_def)
qed

lemma show_menu_answers:
  "show_menu_local p w = (Ok c, w1) \<Longrightarrow> length (answers w1) < length (answers w)"
  by (auto simp: show_menu_local_def io_seq_def io_bind_def io_ret_def
      console_print_def ask_def Let_def split: list.splits option.splits)

text \<open>\<open>while True\<close>: show the menu, run the action, go on unless it was Exit. An
  exception that the action's handler does not catch, or that the handler raises,
  leaves the loop.\<close>

function local_loop :: "string \<Rightarrow> 'r world \<Rightarrow> unit res \<times> 'r world" where
  "local_loop repo_path w =
     (case show_menu_local repo_path w of
        (Raise e, w1) \<Rightarrow> (Raise e, w1)
      | (Ok choice, w1) \<Rightarrow>
          (case menu_action repo_path choice w1 of
             (Raise e, w2) \<Rightarrow> (Raise e, w2)
           | (Ok Break, w2) \<Rightarrow> (Ok (), w2)
           | (Ok Continue, w2) \<Rightarrow> local_loop repo_path w2))"
  by pat_completeness auto
termination
proof (relation "measure (\<lambda>(p, w). length (answers w))")
  show "wf (measure (\<lambda>(p, w). length (answers w)))" by simp
next
  fix repo_path :: string and w :: "'r world" and x1 w1 choice x w2 and f :: flow
  assume a: "(x1, w1) = show_menu_local repo_path w" "x1 = Ok choice"
     and b: "(x, w2) = menu_action repo_path choice w1"
  have "length (answers w1) < length (answers w)"
    using a show_menu_answers [of repo_path w choice w1] by simp
  moreover have "length (answers (snd (menu_action repo_path choice w1))) \<le> length (answers w1)"
    by (rule keeps_action [unfolded keeps_def, rule_format])
  ultimately show "((repo_path, w2), (repo_path, w)) \<in> measure (\<lambda>(p, w). length (answers w))"
    using b [symmetric] by simp
qed

declare local_loop.simps [simp del]

text \<open>\<open>TOKEN\<close> is the token read at startup; the program has stopped there when it
  is missing. \<open>abspath w\<close> stands for \<open>os.path.abspath(os.path.expanduser(p))\<close>,
  which depends on the home and the working directory.\<close>

definition local_git_menu :: "string \<Rightarrow> (unit, 'r) io" where
  "local_git_menu TOKEN =
     io_bind (ask ''Local repository path (default)'' (Some REPO_PATH)) (\<lambda>base_repo_path w.
       let repo_path = abspath w base_repo_path
       in io_bind (ensure_local_repo repo_path None (Some TOKEN)) (\<lambda>ok.
            if \<not> ok then io_ret ()
            else io_seq (configure_identity repo_path)
                (io_seq (fix_local_remote_with_token repo_path TOKEN)
                (local_loop repo_path))) w)"

section \<open>Vocabulary of the statements\<close>

text \<open>The processes launched, and the library calls made, between two worlds.\<close>

definition new_launched :: "'r world \<Rightarrow> 'r world \<Rightarrow> (string list \<times> presult) list" where
  "new_launched w w' = drop (length (launched w)) (launched w')"

definition new_libcalls :: "'r world \<Rightarrow> 'r world \<Rightarrow> libcall list" where
  "new_libcalls w w' = drop (length (libcalls w)) (libcalls w')"

text \<open>
  The specification's notion of a URL that carries credentials: the authority, which
  runs from \<open>://\<close> to the next \<open>/\<close>, \<open>?\<close> or \<open>#\<close>, holds an \<open>@\<close>.
\<close>

fun after_scheme :: "string \<Rightarrow> string option" where
  "after_scheme [] = None"
| "after_scheme (c # cs) =
     (if startswith (c # cs) ''://'' then Some (drop 3 (c # cs)) else after_scheme cs)"

definition spec_has_userinfo :: "string \<Rightarrow> bool" where
  "spec_has_userinfo url =
     (case after_scheme url of
        None \<Rightarrow> False
      | Some r \<Rightarrow> CHR ''@'' \<in> set (takeWhile (\<lambda>c. c \<notin> set ''/?#'') r))"

section \<open>Example worlds\<close>

text \<open>
  Worlds for the concrete instances. \<open>rest\<close> counts the local commits: a commit that
  exits with status 0 adds one. \<open>demo_git st\<close> lets every git command exit with the
  status \<open>st\<close> gives its subcommand; \<open>demo_remote url\<close> prints \<open>url\<close> for every
  command; with \<open>demo_lib\<close> every library call returns, with \<open>demo_missing\<close> the
  copy finds no file. The signals are those of Linux; style names are taken as they are, and no
  handler tag fails to parse.
\<close>

definition subcommand :: "string list \<Rightarrow> string" where
  "subcommand cmd =
     (if take 1 (drop 1 cmd) = [''-C''] then concat (take 1 (drop 3 cmd))
      else concat (take 1 (drop 1 cmd)))"

definition demo_git :: "(string \<Rightarrow> int) \<Rightarrow> string list \<Rightarrow> nat fsys \<Rightarrow> presult \<times> nat fsys" where
  "demo_git st cmd f =
     (Exited (st (subcommand cmd)) [],
      if subcommand cmd = ''commit'' \<and> st (subcommand cmd) = 0
      then f\<lparr>rest := Suc (rest f)\<rparr> else f)"

definition fails :: "string \<Rightarrow> int \<Rightarrow> string \<Rightarrow> int" where
  "fails sub rc s = (if s = sub then rc else 0)"

definition demo_remote :: "string \<Rightarrow> string list \<Rightarrow> nat fsys \<Rightarrow> presult \<times> nat fsys" where
  "demo_remote url cmd f = (Exited 0 (url @ NL), f)"

definition demo_lib :: "libcall \<Rightarrow> nat fsys \<Rightarrow> string option \<times> nat fsys" where
  "demo_lib c f = (None, f)"

definition demo_missing :: "libcall \<Rightarrow> nat fsys \<Rightarrow> string option \<times> nat fsys" where
  "demo_missing c f =
     (case c of
        Copy2 src dst \<Rightarrow>
          (Some (''[Errno 2] No such file or directory: '' @ [squote] @ src @ [squote]), f)
      | _ \<Rightarrow> (None, f))"

definition linux_signals :: "nat \<Rightarrow> string option" where
  "linux_signals = map_of
     [(1, ''SIGHUP''), (2, ''SIGINT''), (3, ''SIGQUIT''), (4, ''SIGILL''), (5, ''SIGTRAP''),
      (6, ''SIGABRT''), (7, ''SIGBUS''), (8, ''SIGFPE''), (9, ''SIGKILL''), (10, ''SIGUSR1''),
      (11, ''SIGSEGV''), (12, ''SIGUSR2''), (13, ''SIGPIPE''), (14, ''SIGALRM''),
      (15, ''SIGTERM''), (16, ''SIGSTKFLT''), (17, ''SIGCHLD''), (18, ''SIGCONT''),
      (19, ''SIGSTOP''), (20, ''SIGTSTP''), (21, ''SIGTTIN''), (22, ''SIGTTOU''),
      (23, ''SIGURG''), (24, ''SIGXCPU''), (25, ''SIGXFSZ''), (26, ''SIGVTALRM''),
      (27, ''SIGPROF''), (28, ''SIGWINCH''), (29, ''SIGIO''), (30, ''SIGPWR''),
      (31, ''SIGSYS''), (34, ''SIGRTMIN''), (64, ''SIGRTMAX'')]"

definition demo ::
  "string set \<Rightarrow> string list \<Rightarrow> (string list \<Rightarrow> nat fsys \<Rightarrow> presult \<times> nat fsys) \<Rightarrow> nat world" where
  "demo ds ans ex =
     \<lparr>fs = \<lparr>dirs = ds, files = {}, rest = 0\<rparr>,
      exec = ex,
      lib = demo_lib,
      mkdtemp = (\<lambda>prefix f. (Inr (''/tmp/'' @ prefix @ ''0''), f)),
      abspath = (\<lambda>p. p),
      normalize = (\<lambda>s. s),
      meta_error = (\<lambda>p. None),
      signal_name = linux_signals,
      answers = ans,
      log_writable = True,
      console = [], logfile = [], launched = [], libcalls = []\<rparr>"

definition demo_repo :: repository where
  "demo_repo = \<lparr>repo_name = ''r'', full_name = ''u/r'', owner_login = ''u'',
                default_branch = ''main''\<rparr>"

section \<open>Normal forms of the steps\<close>

text \<open>
  The line that \<open>run_shell\<close> prints for a command (\<open>running\<close>) and the part
  of it that the commands of one checkout share (\<open>running_in\<close>). The worlds after
  a line is printed (\<open>printed\<close>), after a process (\<open>launch\<close>),
  after \<open>run_shell\<close> (\<open>shell\<close>) and after an answered prompt (\<open>asked\<close>), and the
  part that the Push and the Sync branch of \<open>menu_try\<close> share, under a name:
  staging, the unchecked commit, and the push that depends on its status.
\<close>

definition printed :: "string \<Rightarrow> 'r world \<Rightarrow> 'r world" where
  "printed s w = w\<lparr>console := console w @ [s]\<rparr>"

definition running :: "string list \<Rightarrow> string" where
  "running cmd = rocket @ '' Running: '' @ py_join '' '' cmd"

definition running_in :: "string \<Rightarrow> string" where
  "running_in p = rocket @ '' Running: git -C '' @ p"

definition launch :: "string list \<Rightarrow> presult \<Rightarrow> 'r fsys \<Rightarrow> 'r world \<Rightarrow> 'r world" where
  "launch cmd r f w = w\<lparr>fs := f, launched := launched w @ [(cmd, r)]\<rparr>"

definition shell :: "string list \<Rightarrow> presult \<Rightarrow> 'r fsys \<Rightarrow> 'r world \<Rightarrow> 'r world" where
  "shell cmd r f w = launch cmd r f (printed (running cmd) w)"

definition asked :: "string \<Rightarrow> string list \<Rightarrow> 'r world \<Rightarrow> 'r world" where
  "asked prompt pending w = (printed prompt w)\<lparr>answers := pending\<rparr>"

definition commit_push ::
  "string \<Rightarrow> string \<Rightarrow> string \<Rightarrow> string \<Rightarrow> string \<Rightarrow> string \<Rightarrow> (flow, 'r) io" where
  "commit_push repo_path commit_msg ok_text ok_entry no_text no_entry =
     io_seq (run_shell [''git'', ''-C'', repo_path, ''add'', ''.''] False)
    (io_bind (subprocess_run [''git'', ''-C'', repo_path, ''commit'', ''-m'', commit_msg] False)
       (\<lambda>returncode.
          if returncode = 0 then
            io_seq (run_shell [''git'', ''-C'', repo_path, ''push''] False)
           (io_seq (console_print ok_text)
           (io_seq (io_do (log_action ok_entry))
           (io_ret Continue)))
          else
            io_seq (console_print no_text)
           (io_seq (io_do (log_action no_entry))
           (io_ret Continue))))"

text \<open>A computation adds library calls only, and only calls that satisfy \<open>P\<close>.\<close>

definition adds :: "(libcall \<Rightarrow> bool) \<Rightarrow> ('a, 'r) io \<Rightarrow> bool" where
  "adds P m = (\<forall>w. \<exists>xs. libcalls (snd (m w)) = libcalls w @ xs \<and> list_all P xs)"


section \<open>Lemmas\<close>

lemmas io_defs = io_seq_def io_bind_def io_do_def io_ret_def run_shell_def
      subprocess_run_def console_print_def log_action_def ask_def Let_def

lemmas demo_defs = demo_def demo_git_def demo_remote_def demo_lib_def subcommand_def fails_def
  demo_repo_def

subsection \<open>Markup\<close>

text \<open>A tag ends at a closing bracket: text without one holds no tag, and does not
  change the tags of what stands in front of it.\<close>

lemma scan_no_close:
  "CHR '']'' \<notin> set s \<Longrightarrow> markup_scan st i s = []"
proof (induction s arbitrary: st i)
  case Nil
  then show ?case by simp
next
  case (Cons c cs)
  then show ?case by (cases st) (auto simp: backslash_def)
qed

lemma scan_suffix:
  "CHR '']'' \<notin> set suf \<Longrightarrow> markup_scan st i (xs @ suf) = markup_scan st i xs"
proof (induction xs arbitrary: st i)
  case Nil
  then show ?case by (simp add: scan_no_close)
next
  case (Cons c cs)
  then show ?case by (cases st) (auto simp: backslash_def)
qed

lemma markup_error_suffix:
  "CHR '']'' \<notin> set suf \<Longrightarrow> markup_error w (xs @ suf) = markup_error w xs"
  by (simp add: markup_error_def scan_suffix)

lemma markup_error_plain:
  "CHR '']'' \<notin> set s \<Longrightarrow> markup_error w s = None"
  by (simp add: markup_error_def scan_no_close)

text \<open>The lines that \<open>run_shell\<close> prints for the commands of one checkout are all
  broken or all fine: their tags are those of the path.\<close>

lemma running_error:
  "markup_error w (running [''git'', ''-C'', p, ''pull'']) = markup_error w (running_in p)"
  "markup_error w (running [''git'', ''-C'', p, ''push'']) = markup_error w (running_in p)"
  "markup_error w (running [''git'', ''-C'', p, ''add'', ''.'']) = markup_error w (running_in p)"
proof -
  have "running [''git'', ''-C'', p, ''pull''] = running_in p @ '' pull''"
    and "running [''git'', ''-C'', p, ''push''] = running_in p @ '' push''"
    and "running [''git'', ''-C'', p, ''add'', ''.''] = running_in p @ '' add .''"
    by (simp_all add: running_def running_in_def)
  then show
    "markup_error w (running [''git'', ''-C'', p, ''pull'']) = markup_error w (running_in p)"
    "markup_error w (running [''git'', ''-C'', p, ''push'']) = markup_error w (running_in p)"
    "markup_error w (running [''git'', ''-C'', p, ''add'', ''.'']) = markup_error w (running_in p)"
    by (simp_all add: markup_error_suffix)
qed

lemma plain_lines:
  "markup_error w (NL @ arrows_refresh @ '' Pulling latest changes...'') = None"
  "markup_error w (check_mark @ '' Repository updated successfully!'' @ NL) = None"
  "markup_error w (NL @ arrow_up @ '' Pushing local changes...'') = None"
  "markup_error w (check_mark @ '' Successfully pushed to GitHub!'' @ NL) = None"
  "markup_error w (info_sign @ '' Nothing to commit (working tree clean).'' @ NL) = None"
  "markup_error w (NL @ arrows_repeat @ '' Syncing repository (pull then push)...'') = None"
  "markup_error w (check_mark @ '' Repository synced successfully!'' @ NL) = None"
  "markup_error w (info_sign @ '' Nothing to sync (working tree clean).'' @ NL) = None"
  "markup_error w (NL @ waving_hand @ '' Exiting local git menu.'' @ NL) = None"
  "markup_error w (warning_sign @ '' Invalid choice. Try again.'' @ NL) = None"
  "markup_error w ''1) Clone a new repository'' = None"
  "markup_error w ''2) Cancel / Exit'' = None"
  "markup_error w (waving_hand @ '' Cancelled by user. Exiting local sync.'') = None"
  "markup_error w (cross_mark @ '' No URL provided. Exiting...'') = None"
  by (rule markup_error_plain,
      simp add: NL_def arrows_refresh_def check_mark_def arrow_up_def info_sign_def
        arrows_repeat_def waving_hand_def warning_sign_def cross_mark_def)+

subsection \<open>The fields of the worlds after a step\<close>

lemma printed_sel:
  "fs (printed s w) = fs w"
  "exec (printed s w) = exec w"
  "lib (printed s w) = lib w"
  "signal_name (printed s w) = signal_name w"
  "answers (printed s w) = answers w"
  "log_writable (printed s w) = log_writable w"
  "console (printed s w) = console w @ [s]"
  "logfile (printed s w) = logfile w"
  "launched (printed s w) = launched w"
  "libcalls (printed s w) = libcalls w"
  "markup_error (printed s w) = markup_error w"
  by (simp_all add: printed_def markup_error_def fun_eq_iff)

lemma launch_sel:
  "fs (launch c r f w) = f"
  "exec (launch c r f w) = exec w"
  "lib (launch c r f w) = lib w"
  "signal_name (launch c r f w) = signal_name w"
  "answers (launch c r f w) = answers w"
  "log_writable (launch c r f w) = log_writable w"
  "console (launch c r f w) = console w"
  "logfile (launch c r f w) = logfile w"
  "launched (launch c r f w) = launched w @ [(c, r)]"
  "libcalls (launch c r f w) = libcalls w"
  "markup_error (launch c r f w) = markup_error w"
  by (simp_all add: launch_def markup_error_def fun_eq_iff)

lemma log_sel:
  "fs (log_action s w) = fs w"
  "exec (log_action s w) = exec w"
  "lib (log_action s w) = lib w"
  "signal_name (log_action s w) = signal_name w"
  "answers (log_action s w) = answers w"
  "log_writable (log_action s w) = log_writable w"
  "console (log_action s w) = console w"
  "logfile (log_action s w) = (if log_writable w then logfile w @ [s] else logfile w)"
  "launched (log_action s w) = launched w"
  "libcalls (log_action s w) = libcalls w"
  "markup_error (log_action s w) = markup_error w"
  by (simp_all add: log_action_def markup_error_def fun_eq_iff)

lemma shell_sel:
  "fs (shell c r f w) = f"
  "exec (shell c r f w) = exec w"
  "lib (shell c r f w) = lib w"
  "signal_name (shell c r f w) = signal_name w"
  "answers (shell c r f w) = answers w"
  "log_writable (shell c r f w) = log_writable w"
  "console (shell c r f w) = console w @ [running c]"
  "logfile (shell c r f w) = logfile w"
  "launched (shell c r f w) = launched w @ [(c, r)]"
  "libcalls (shell c r f w) = libcalls w"
  "markup_error (shell c r f w) = markup_error w"
  by (simp_all add: shell_def launch_sel printed_sel)

lemma asked_sel:
  "fs (asked q ps w) = fs w"
  "exec (asked q ps w) = exec w"
  "lib (asked q ps w) = lib w"
  "signal_name (asked q ps w) = signal_name w"
  "answers (asked q ps w) = ps"
  "log_writable (asked q ps w) = log_writable w"
  "console (asked q ps w) = console w @ [q]"
  "logfile (asked q ps w) = logfile w"
  "launched (asked q ps w) = launched w"
  "libcalls (asked q ps w) = libcalls w"
  "markup_error (asked q ps w) = markup_error w"
  by (simp_all add: asked_def printed_def markup_error_def fun_eq_iff)

lemmas world_sel = launch_sel printed_sel log_sel shell_sel asked_sel

lemmas trace_simps = new_launched_def world_sel

subsection \<open>The steps in normal form\<close>

lemma console_print_eq:
  "console_print s w =
     (case markup_error w s of
        Some m \<Rightarrow> (Raise (OtherException m), w)
      | None \<Rightarrow> (Ok (), printed s w))"
  by (simp add: console_print_def printed_def split: option.splits)

lemma ask_eq:
  "ask q d w =
     (case answers w of
        [] \<Rightarrow> (Raise EOFError, printed q w)
      | a # ps \<Rightarrow>
          (Ok (case d of Some x \<Rightarrow> if a = [] then x else py_strip a | None \<Rightarrow> py_strip a),
           asked q ps w))"
  by (simp add: ask_def asked_def printed_def Let_def split: list.splits)

lemma subprocess_run_eq:
  "exec w cmd (fs w) = (r, f) \<Longrightarrow>
   subprocess_run cmd check w =
     (case r of ExecError m \<Rightarrow> Raise (OtherException m)
              | Exited rc out \<Rightarrow>
                  if check \<and> rc \<noteq> 0 then Raise (CalledProcessError cmd rc) else Ok rc,
      launch cmd r f w)"
  by (simp add: subprocess_run_def launch_def Let_def split: presult.splits)

lemma run_shell_eq:
  "markup_error w (running cmd) = None \<Longrightarrow>
   exec w cmd (fs w) = (r, f) \<Longrightarrow>
   run_shell cmd False w =
     (case r of ExecError m \<Rightarrow> Raise (OtherException m)
              | Exited rc out \<Rightarrow> if rc \<noteq> 0 then Raise (CalledProcessError cmd rc) else Ok (),
      shell cmd r f w)"
  by (simp add: run_shell_def subprocess_run_def shell_def launch_def printed_def io_seq_def
      io_bind_def io_ret_def console_print_def running_def Let_def split: presult.splits)

lemma run_shell_raise:
  "markup_error w (running cmd) = Some m \<Longrightarrow>
   run_shell cmd False w = (Raise (OtherException m), w)"
  by (simp add: run_shell_def io_seq_def io_bind_def console_print_def running_def)

subsection \<open>Staging, commit and push: the outcomes\<close>

text \<open>The line that \<open>run_shell\<close> prints is broken, and nothing is launched; or one
  of the seven outcomes of the three processes. The two final lines are taken to
  render, as the constant lines of the program do.\<close>

lemma commit_push_cases [consumes 2, case_names print_failed add_noexec add_failed
    commit_noexec nothing push_noexec push_failed pushed]:
  fixes w :: "'r world"
  assumes "markup_error w okt = None" and "markup_error w nt = None"
  obtains
    m where
      "markup_error w (running_in p) = Some m"
      "commit_push p msg okt oke nt ne w = (Raise (OtherException m), w)"
  | m f1 where
      "markup_error w (running_in p) = None"
      "exec w [''git'', ''-C'', p, ''add'', ''.''] (fs w) = (ExecError m, f1)"
      "commit_push p msg okt oke nt ne w =
         (Raise (OtherException m), shell [''git'', ''-C'', p, ''add'', ''.''] (ExecError m) f1 w)"
  | rc o1 f1 where
      "markup_error w (running_in p) = None"
      "exec w [''git'', ''-C'', p, ''add'', ''.''] (fs w) = (Exited rc o1, f1)" "rc \<noteq> 0"
      "commit_push p msg okt oke nt ne w =
         (Raise (CalledProcessError [''git'', ''-C'', p, ''add'', ''.''] rc),
          shell [''git'', ''-C'', p, ''add'', ''.''] (Exited rc o1) f1 w)"
  | o1 f1 m f2 where
      "markup_error w (running_in p) = None"
      "exec w [''git'', ''-C'', p, ''add'', ''.''] (fs w) = (Exited 0 o1, f1)"
      "exec w [''git'', ''-C'', p, ''commit'', ''-m'', msg] f1 = (ExecError m, f2)"
      "commit_push p msg okt oke nt ne w =
         (Raise (OtherException m),
          launch [''git'', ''-C'', p, ''commit'', ''-m'', msg] (ExecError m) f2
            (shell [''git'', ''-C'', p, ''add'', ''.''] (Exited 0 o1) f1 w))"
  | o1 f1 rc o2 f2 where
      "markup_error w (running_in p) = None"
      "exec w [''git'', ''-C'', p, ''add'', ''.''] (fs w) = (Exited 0 o1, f1)"
      "exec w [''git'', ''-C'', p, ''commit'', ''-m'', msg] f1 = (Exited rc o2, f2)" "rc \<noteq> 0"
      "commit_push p msg okt oke nt ne w =
         (Ok Continue,
          log_action ne (printed nt
            (launch [''git'', ''-C'', p, ''commit'', ''-m'', msg] (Exited rc o2) f2
              (shell [''git'', ''-C'', p, ''add'', ''.''] (Exited 0 o1) f1 w))))"
  | o1 f1 o2 f2 m f3 where
      "markup_error w (running_in p) = None"
      "exec w [''git'', ''-C'', p, ''add'', ''.''] (fs w) = (Exited 0 o1, f1)"
      "exec w [''git'', ''-C'', p, ''commit'', ''-m'', msg] f1 = (Exited 0 o2, f2)"
      "exec w [''git'', ''-C'', p, ''push''] f2 = (ExecError m, f3)"
      "commit_push p msg okt oke nt ne w =
         (Raise (OtherException m),
          shell [''git'', ''-C'', p, ''push''] (ExecError m) f3
            (launch [''git'', ''-C'', p, ''commit'', ''-m'', msg] (Exited 0 o2) f2
              (shell [''git'', ''-C'', p, ''add'', ''.''] (Exited 0 o1) f1 w)))"
  | o1 f1 o2 f2 rc o3 f3 where
      "markup_error w (running_in p) = None"
      "exec w [''git'', ''-C'', p, ''add'', ''.''] (fs w) = (Exited 0 o1, f1)"
      "exec w [''git'', ''-C'', p, ''commit'', ''-m'', msg] f1 = (Exited 0 o2, f2)"
      "exec w [''git'', ''-C'', p, ''push''] f2 = (Exited rc o3, f3)" "rc \<noteq> 0"
      "commit_push p msg okt oke nt ne w =
         (Raise (CalledProcessError [''git'', ''-C'', p, ''push''] rc),
          shell [''git'', ''-C'', p, ''push''] (Exited rc o3) f3
            (launch [''git'', ''-C'', p, ''commit'', ''-m'', msg] (Exited 0 o2) f2
              (shell [''git'', ''-C'', p, ''add'', ''.''] (Exited 0 o1) f1 w)))"
  | o1 f1 o2 f2 o3 f3 where
      "markup_error w (running_in p) = None"
      "exec w [''git'', ''-C'', p, ''add'', ''.''] (fs w) = (Exited 0 o1, f1)"
      "exec w [''git'', ''-C'', p, ''commit'', ''-m'', msg] f1 = (Exited 0 o2, f2)"
      "exec w [''git'', ''-C'', p, ''push''] f2 = (Exited 0 o3, f3)"
      "commit_push p msg okt oke nt ne w =
         (Ok Continue,
          log_action oke (printed okt
            (shell [''git'', ''-C'', p, ''push''] (Exited 0 o3) f3
              (launch [''git'', ''-C'', p, ''commit'', ''-m'', msg] (Exited 0 o2) f2
                (shell [''git'', ''-C'', p, ''add'', ''.''] (Exited 0 o1) f1 w)))))"
proof -
  let ?A = "[''git'', ''-C'', p, ''add'', ''.'']"
  let ?C = "[''git'', ''-C'', p, ''commit'', ''-m'', msg]"
  let ?P = "[''git'', ''-C'', p, ''push'']"
  obtain r1 f1 where a: "exec w ?A (fs w) = (r1, f1)" by force
  obtain r2 f2 where c: "exec w ?C f1 = (r2, f2)" by force
  obtain r3 f3 where p: "exec w ?P f2 = (r3, f3)" by force
  note defs = commit_push_def io_seq_def io_bind_def io_do_def io_ret_def console_print_eq
    world_sel assms
  show thesis
  proof (cases "markup_error w (running_in p)")
    case (Some m)
    show thesis
      by (rule that(1) [of m])
         (use Some run_shell_raise [of w ?A m] in \<open>simp_all add: defs running_error\<close>)
  next
    case None
    have A: "run_shell ?A False w =
       (case r1 of ExecError m \<Rightarrow> Raise (OtherException m)
                | Exited rc out \<Rightarrow> if rc \<noteq> 0 then Raise (CalledProcessError ?A rc) else Ok (),
        shell ?A r1 f1 w)"
      by (rule run_shell_eq [OF _ a]) (simp add: running_error None)
    have C: "subprocess_run ?C False (shell ?A r1 f1 w) =
       (case r2 of ExecError m \<Rightarrow> Raise (OtherException m) | Exited rc out \<Rightarrow> Ok rc,
        launch ?C r2 f2 (shell ?A r1 f1 w))"
      using subprocess_run_eq [of "shell ?A r1 f1 w" ?C r2 f2 False] c
      by (simp add: world_sel split: presult.splits)
    have P: "run_shell ?P False (launch ?C r2 f2 (shell ?A r1 f1 w)) =
       (case r3 of ExecError m \<Rightarrow> Raise (OtherException m)
                | Exited rc out \<Rightarrow> if rc \<noteq> 0 then Raise (CalledProcessError ?P rc) else Ok (),
        shell ?P r3 f3 (launch ?C r2 f2 (shell ?A r1 f1 w)))"
      using run_shell_eq [of "launch ?C r2 f2 (shell ?A r1 f1 w)" ?P r3 f3] p
      by (simp add: world_sel running_error None)
    show thesis
    proof (cases r1)
      case (ExecError m)
      show thesis by (rule that(2) [of m f1]) (use None a ExecError A in \<open>simp_all add: defs\<close>)
    next
      case e1: (Exited rc1 o1)
      show thesis
      proof (cases "rc1 = 0")
        case False
        show thesis
          by (rule that(3) [of rc1 o1 f1]) (use None a e1 False A in \<open>simp_all add: defs\<close>)
      next
        case z1: True
        show thesis
        proof (cases r2)
          case (ExecError m)
          show thesis
            by (rule that(4) [of o1 f1 m f2])
               (use None a c e1 z1 ExecError A C in \<open>simp_all add: defs\<close>)
        next
          case e2: (Exited rc2 o2)
          show thesis
          proof (cases "rc2 = 0")
            case False
            show thesis
              by (rule that(5) [of o1 f1 rc2 o2 f2])
                 (use None a c e1 z1 e2 False A C in \<open>simp_all add: defs\<close>)
          next
            case z2: True
            show thesis
            proof (cases r3)
              case (ExecError m)
              show thesis
                by (rule that(6) [of o1 f1 o2 f2 m f3])
                   (use None a c p e1 z1 e2 z2 ExecError A C P in \<open>simp_all add: defs\<close>)
            next
              case e3: (Exited rc3 o3)
              show thesis
              proof (cases "rc3 = 0")
                case False
                show thesis
                  by (rule that(7) [of o1 f1 o2 f2 rc3 o3 f3])
                     (use None a c p e1 z1 e2 z2 e3 False A C P in \<open>simp_all add: defs\<close>)
              next
                case True
                show thesis
                  by (rule that(8) [of o1 f1 o2 f2 o3 f3])
                     (use None a c p e1 z1 e2 z2 e3 True A C P in \<open>simp_all add: defs\<close>)
              qed
            qed
          qed
        qed
      qed
    qed
  qed
qed

subsection \<open>The branches of the menu\<close>

lemma menu_action_eq:
  "menu_try p c w = (r, w1) \<Longrightarrow>
   menu_action p c w =
     (case r of
        Raise (CalledProcessError cmd rc) \<Rightarrow>
          (case markup_error w1 (cross_mark @ '' Git command failed: ''
                  @ str_exn (signal_name w1) (CalledProcessError cmd rc) @ NL) of
             Some m \<Rightarrow> (Raise (OtherException m), w1)
           | None \<Rightarrow>
               (Ok Continue,
                log_action (''Git command failed for '' @ p @ '': ''
                    @ str_exn (signal_name w1) (CalledProcessError cmd rc))
                  (printed (cross_mark @ '' Git command failed: ''
                     @ str_exn (signal_name w1) (CalledProcessError cmd rc) @ NL) w1)))
      | _ \<Rightarrow> (r, w1))"
  by (simp add: menu_action_def io_seq_def io_bind_def io_do_def io_ret_def console_print_eq
      world_sel split: res.splits exn.splits option.splits)

lemma menu_try_push:
  "menu_try p ''2'' =
     io_seq (console_print (NL @ arrow_up @ '' Pushing local changes...''))
    (io_bind (ask ''Commit message (default)'' (Some DEFAULT_COMMIT_MSG)) (\<lambda>commit_msg.
       commit_push p commit_msg
         (check_mark @ '' Successfully pushed to GitHub!'' @ NL)
         (''Pushed changes in '' @ p @ '' with message: '' @ commit_msg)
         (info_sign @ '' Nothing to commit (working tree clean).'' @ NL)
         (''Nothing to commit in '' @ p)))"
proof -
  have "(''2'' = ''1'') = False" by simp
  then show ?thesis
    unfolding menu_try_def commit_push_def by (simp only: if_False if_True simp_thms)
qed

lemma menu_try_sync:
  "menu_try p ''3'' =
     io_seq (console_print (NL @ arrows_repeat
                  @ '' Syncing repository (pull then push)...''))
    (io_seq (run_shell [''git'', ''-C'', p, ''pull''] False)
    (io_bind (ask ''Commit message (default)'' (Some ''Auto sync via Unified Manager''))
       (\<lambda>commit_msg.
       commit_push p commit_msg
         (check_mark @ '' Repository synced successfully!'' @ NL)
         (''Synced repository '' @ p @ '' with message: '' @ commit_msg)
         (info_sign @ '' Nothing to sync (working tree clean).'' @ NL)
         (''Nothing to sync in '' @ p))))"
proof -
  have "(''3'' = ''1'') = False" and "(''3'' = ''2'') = False" by simp_all
  then show ?thesis
    unfolding menu_try_def commit_push_def by (simp only: if_False if_True simp_thms)
qed

lemma push_action_eq:
  "menu_try p ''2'' w =
     (case answers w of
        [] \<Rightarrow> (Raise EOFError,
               printed ''Commit message (default)''
                 (printed (NL @ arrow_up @ '' Pushing local changes...'') w))
      | a # ps \<Rightarrow>
          commit_push p (if a = [] then DEFAULT_COMMIT_MSG else py_strip a)
            (check_mark @ '' Successfully pushed to GitHub!'' @ NL)
            (''Pushed changes in '' @ p @ '' with message: ''
               @ (if a = [] then DEFAULT_COMMIT_MSG else py_strip a))
            (info_sign @ '' Nothing to commit (working tree clean).'' @ NL)
            (''Nothing to commit in '' @ p)
            (asked ''Commit message (default)'' ps
               (printed (NL @ arrow_up @ '' Pushing local changes...'') w)))"
  unfolding menu_try_push
  by (simp add: io_seq_def io_bind_def console_print_eq plain_lines ask_eq world_sel
      split: list.splits)

lemma sync_action_eq:
  assumes "markup_error w (running_in p) = None"
    and "exec w [''git'', ''-C'', p, ''pull''] (fs w) = (r1, f1)"
  shows "menu_try p ''3'' w =
     (case r1 of
        ExecError m \<Rightarrow>
          (Raise (OtherException m),
           shell [''git'', ''-C'', p, ''pull''] r1 f1
             (printed (NL @ arrows_repeat @ '' Syncing repository (pull then push)...'') w))
      | Exited rc1 o1 \<Rightarrow>
          if rc1 \<noteq> 0 then
            (Raise (CalledProcessError [''git'', ''-C'', p, ''pull''] rc1),
             shell [''git'', ''-C'', p, ''pull''] r1 f1
               (printed (NL @ arrows_repeat @ '' Syncing repository (pull then push)...'') w))
          else
            (case answers w of
               [] \<Rightarrow> (Raise EOFError,
                      printed ''Commit message (default)''
                        (shell [''git'', ''-C'', p, ''pull''] r1 f1
                          (printed (NL @ arrows_repeat
                             @ '' Syncing repository (pull then push)...'') w)))
             | a # ps \<Rightarrow>
                 commit_push p (if a = [] then ''Auto sync via Unified Manager'' else py_strip a)
                   (check_mark @ '' Repository synced successfully!'' @ NL)
                   (''Synced repository '' @ p @ '' with message: ''
                      @ (if a = [] then ''Auto sync via Unified Manager'' else py_strip a))
                   (info_sign @ '' Nothing to sync (working tree clean).'' @ NL)
                   (''Nothing to sync in '' @ p)
                   (asked ''Commit message (default)'' ps
                      (shell [''git'', ''-C'', p, ''pull''] r1 f1
                        (printed (NL @ arrows_repeat
                           @ '' Syncing repository (pull then push)...'') w)))))"
proof -
  let ?W = "printed (NL @ arrows_repeat @ '' Syncing repository (pull then push)...'') w"
  have R: "run_shell [''git'', ''-C'', p, ''pull''] False ?W =
     (case r1 of ExecError m \<Rightarrow> Raise (OtherException m)
              | Exited rc out \<Rightarrow>
                  if rc \<noteq> 0 then Raise (CalledProcessError [''git'', ''-C'', p, ''pull''] rc)
                  else Ok (),
      shell [''git'', ''-C'', p, ''pull''] r1 f1 ?W)"
    using run_shell_eq [of ?W "[''git'', ''-C'', p, ''pull'']" r1 f1] assms
    by (simp add: world_sel running_error)
  show ?thesis
    unfolding menu_try_sync
    by (simp add: io_seq_def io_bind_def console_print_eq plain_lines ask_eq world_sel R
        split: list.splits presult.splits)
qed

lemma sync_action_raise:
  assumes "markup_error w (running_in p) = Some m"
  shows "menu_try p ''3'' w =
     (Raise (OtherException m),
      printed (NL @ arrows_repeat @ '' Syncing repository (pull then push)...'') w)"
proof -
  let ?W = "printed (NL @ arrows_repeat @ '' Syncing repository (pull then push)...'') w"
  have R: "run_shell [''git'', ''-C'', p, ''pull''] False ?W = (Raise (OtherException m), ?W)"
    by (rule run_shell_raise) (simp add: world_sel running_error assms)
  show ?thesis
    unfolding menu_try_sync
    by (simp add: io_seq_def io_bind_def console_print_eq plain_lines R)
qed

subsection \<open>URLs\<close>

lemma py_in_char: "py_in [c] s = (c \<in> set s)"
  by (induction s) (auto simp: startswith_def)

lemma after_scheme_set: "after_scheme s = Some r \<Longrightarrow> set r \<subseteq> set s"
proof (induction s)
  case Nil
  then show ?case by simp
next
  case (Cons c cs)
  then show ?case
    by (auto split: if_splits dest: in_set_dropD)
qed

lemma userinfo_has_at: "spec_has_userinfo url \<Longrightarrow> py_in ''@'' url"
  unfolding spec_has_userinfo_def py_in_char
  by (auto split: option.splits dest!: after_scheme_set set_takeWhileD)

subsection \<open>Library calls of the upload\<close>

lemma adds_bind:
  assumes "adds P m" and "\<And>a. adds P (f a)"
  shows "adds P (io_bind m f)"
  unfolding adds_def
proof
  fix w
  obtain r w1 where m: "m w = (r, w1)" by force
  from assms(1) obtain xs where xs: "libcalls w1 = libcalls w @ xs" "list_all P xs"
    unfolding adds_def using m by (metis snd_conv)
  show "\<exists>zs. libcalls (snd (io_bind m f w)) = libcalls w @ zs \<and> list_all P zs"
  proof (cases r)
    case (Ok a)
    from assms(2) [of a] obtain ys where
      ys: "libcalls (snd (f a w1)) = libcalls w1 @ ys" "list_all P ys"
      unfolding adds_def by blast
    show ?thesis
      using m Ok xs ys by (intro exI [of _ "xs @ ys"]) (simp add: io_bind_def)
  next
    case (Raise e)
    show ?thesis
      using m Raise xs by (intro exI [of _ xs]) (simp add: io_bind_def)
  qed
qed

lemma adds_seq: "adds P m \<Longrightarrow> adds P n \<Longrightarrow> adds P (io_seq m n)"
  unfolding io_seq_def by (rule adds_bind)

lemma adds_ret: "adds P (io_ret a)"
  by (simp add: adds_def io_ret_def)

lemma adds_print: "adds P (console_print s)"
  by (simp add: adds_def console_print_def split: option.splits)

lemma adds_log: "adds P (io_do (log_action s))"
  by (simp add: adds_def io_do_def log_action_def)

lemma adds_lib: "P c \<Longrightarrow> adds P (lib_call c)"
  by (auto simp: adds_def lib_call_def Let_def split: prod.splits option.splits)

lemma adds_cond: "adds P m \<Longrightarrow> adds P n \<Longrightarrow> adds P (\<lambda>w. if b w then m w else n w)"
  by (simp add: adds_def)

lemma adds_skip: "adds P m \<Longrightarrow> adds P (\<lambda>w. if b w then m w else (Ok (), w))"
  by (simp add: adds_def)

lemma path_join_longer: "b \<noteq> [] \<Longrightarrow> \<not> startswith b [slash] \<Longrightarrow> path_join a b \<noteq> a"
  by (simp add: path_join_def)

lemma adds_remove_ignored:
  "adds (\<lambda>c. c \<noteq> RmTree t) (remove_ignored t ignore_list)"
  unfolding ignore_list_def remove_ignored.simps Let_def
  by (intro adds_seq adds_ret adds_skip adds_cond adds_lib)
     (simp_all add: path_join_longer startswith_def slash_def)

lemma adds_upload_try:
  "adds (\<lambda>c. c \<noteq> RmTree t) (upload_try repo file_path branch_name commit_message token t)"
  unfolding upload_try_def
  by (intro adds_seq adds_ret adds_cond adds_lib adds_print adds_log adds_remove_ignored)
     simp_all

lemma lib_call_sel:
  "libcalls (snd (lib_call c w)) = libcalls w @ [c]"
  "console (snd (lib_call c w)) = console w"
  "logfile (snd (lib_call c w)) = logfile w"
  by (simp_all add: lib_call_def Let_def split: prod.splits option.splits)


text \<open>Once the scratch directory \<open>t\<close> is made, its removal is among the library
  calls of the upload once, as the last one, whatever the steps and the handler do.\<close>

lemma upload_removes_scratch_once:
  assumes "mkdtemp w ''gh_clone_'' (fs w) = (Inr t, f0)"
  shows "count_list (new_libcalls w
            (snd (upload_file_to_github repo file_path branch_name commit_message token w)))
            (RmTree t) = 1 \<and>
         last (libcalls
            (snd (upload_file_to_github repo file_path branch_name commit_message token w)))
            = RmTree t"
proof -
  let ?W = "w\<lparr>fs := f0\<rparr>"
  obtain r1 w1 where t: "upload_try repo file_path branch_name commit_message token t ?W = (r1, w1)"
    by force
  obtain xs where xs: "libcalls w1 = libcalls ?W @ xs" "list_all (\<lambda>c. c \<noteq> RmTree t) xs"
    using adds_upload_try [of t repo file_path branch_name commit_message token, unfolded adds_def]
      t by (metis snd_conv)
  have c0: "count_list xs (RmTree t) = 0"
    using xs(2) by (induction xs) auto
  show ?thesis
    using assms t xs(1) c0
    by (cases r1)
       (simp_all add: upload_file_to_github_def new_libcalls_def lib_call_sel console_print_def
          log_action_def io_seq_def io_bind_def io_do_def io_ret_def split: option.splits)
qed

subsection \<open>A failed push\<close>

text \<open>
  Staging and the commit exit with status 0, the push with another: the \<open>try\<close>
  block of the Push action raises the \<open>CalledProcessError\<close> of the push. After the
  action the push is the last of its three processes and the file system is the one
  the push left, \<open>f3\<close>, which it made from the one the commit left, \<open>f2\<close>: nothing
  ran after the push that could undo the commit, whatever the handler did.
\<close>

lemma failed_push_leaves_commit:
  assumes "answers w = a # pending"
    and "msg = (if a = [] then DEFAULT_COMMIT_MSG else py_strip a)"
    and "markup_error w (running_in repo_path) = None"
    and "exec w [''git'', ''-C'', repo_path, ''add'', ''.''] (fs w) = (Exited 0 o1, f1)"
    and "exec w [''git'', ''-C'', repo_path, ''commit'', ''-m'', msg] f1 = (Exited 0 o2, f2)"
    and "exec w [''git'', ''-C'', repo_path, ''push''] f2 = (Exited rc o3, f3)"
    and "rc \<noteq> 0"
  shows "fst (menu_try repo_path ''2'' w)
           = Raise (CalledProcessError [''git'', ''-C'', repo_path, ''push''] rc)
         \<and> fs (snd (menu_action repo_path ''2'' w)) = f3
         \<and> launched (snd (menu_action repo_path ''2'' w)) = launched w @
              [([''git'', ''-C'', repo_path, ''add'', ''.''], Exited 0 o1),
               ([''git'', ''-C'', repo_path, ''commit'', ''-m'', msg], Exited 0 o2),
               ([''git'', ''-C'', repo_path, ''push''], Exited rc o3)]"
proof -
  obtain r0 w1 where t: "menu_try repo_path ''2'' w = (r0, w1)" by force
  note ma = menu_action_eq [OF t]
  let ?W0 = "asked ''Commit message (default)'' pending
               (printed (NL @ arrow_up @ '' Pushing local changes...'') w)"
  have h1: "markup_error ?W0 (check_mark @ '' Successfully pushed to GitHub!'' @ NL) = None"
    and h2: "markup_error ?W0 (info_sign @ '' Nothing to commit (working tree clean).'' @ NL)
               = None"
    by (rule plain_lines)+
  have cp: "commit_push repo_path msg
          (check_mark @ '' Successfully pushed to GitHub!'' @ NL)
          (''Pushed changes in '' @ repo_path @ '' with message: '' @ msg)
          (info_sign @ '' Nothing to commit (working tree clean).'' @ NL)
          (''Nothing to commit in '' @ repo_path) ?W0 = (r0, w1)"
    using t push_action_eq [of repo_path w] assms(1,2) by simp
  show ?thesis
    using cp ma t assms(3-7)
    by (cases rule: commit_push_cases [OF h1 h2, where p = repo_path and msg = msg
          and oke = "''Pushed changes in '' @ repo_path @ '' with message: '' @ msg"
          and ne = "''Nothing to commit in '' @ repo_path"])
       (auto simp: world_sel split: option.splits)
qed

lemma guard_line_renders:
  "markup_error w
     ''[yellow]Cannot delete the default branch via this tool. Change default first.[/yellow]''
     = None"
  by (simp add: markup_error_def tag_start_def is_cont_def backslash_def close_meta_def
      py_strip_def isspace_def startswith_def)

section \<open>Ensure-checkout\<close>

text \<open>
  Claim C4. On a path that is a directory and holds a \<open>.git\<close> directory,
  \<open>ensure_local_repo\<close> returns \<open>True\<close> and leaves the world as it was: nothing is
  asked, printed, launched, called or changed. A second call on the world it returns
  therefore does the same.
\<close>

theorem ensure_checkout_idempotent:
  assumes "isdir w repo_path" and "isdir w (path_join repo_path ''.git'')"
  shows "ensure_local_repo repo_path url token w = (Ok True, w) \<and>
         (case ensure_local_repo repo_path url token w of
            (r, w') \<Rightarrow> ensure_local_repo repo_path url token w') = (Ok True, w)"
  using assms by (simp add: ensure_local_repo_def)

theorem ensure_checkout_idempotent_witness:
  "isdir (demo {''/tmp/x'', ''/tmp/x/.git''} [] (demo_git (fails ''pull'' 1))) ''/tmp/x'' \<and>
   isdir (demo {''/tmp/x'', ''/tmp/x/.git''} [] (demo_git (fails ''pull'' 1)))
     (path_join ''/tmp/x'' ''.git'') \<and>
   ensure_local_repo ''/tmp/x'' None (Some ''tok'')
       (demo {''/tmp/x'', ''/tmp/x/.git''} [] (demo_git (fails ''pull'' 1)))
     = (Ok True, demo {''/tmp/x'', ''/tmp/x/.git''} [] (demo_git (fails ''pull'' 1)))"
proof -
  let ?W = "demo {''/tmp/x'', ''/tmp/x/.git''} [] (demo_git (fails ''pull'' 1))"
  have a: "isdir ?W ''/tmp/x''"
    by (simp add: isdir_def demo_def)
  have b: "isdir ?W (path_join ''/tmp/x'' ''.git'')"
    by (simp add: isdir_def demo_def path_join_def startswith_def endswith_def slash_def)
  show ?thesis
    using a b ensure_checkout_idempotent [OF a b, of None "Some ''tok''"] by simp
qed

text \<open>
  Claim C5. The path is no checkout and the answer to the clone prompt is not \<open>1\<close>
  (an empty line stands for the default \<open>2\<close>). The file system is unchanged, no
  process is launched and no library call (so no \<open>os.makedirs\<close>) is made. The user
  is asked when the line that names the path renders; \<open>ensure_local_repo\<close> then
  returns \<open>False\<close> after the "Cancelled by user" line, and the world differs in the
  console and in the consumed answer only.
\<close>

theorem declined_clone_leaves_world:
  assumes "\<not> (isdir w repo_path \<and> isdir w (path_join repo_path ''.git''))"
    and "answers w = a # pending"
    and "py_strip (if a = [] then ''2'' else py_strip a) \<noteq> ''1''"
  shows "(markup_error w (warning_sign @ '' Repository not found at: [yellow]'' @ repo_path
                           @ ''[/yellow]'' @ NL) = None \<longrightarrow>
          ensure_local_repo repo_path url token w =
           (Ok False,
            w\<lparr>answers := pending,
              console := console w @
                [warning_sign @ '' Repository not found at: [yellow]'' @ repo_path
                   @ ''[/yellow]'' @ NL,
                 ''1) Clone a new repository'',
                 ''2) Cancel / Exit'',
                 NL @ point_right @ '' Enter your choice (1-2)'',
                 waving_hand @ '' Cancelled by user. Exiting local sync.'']\<rparr>))
         \<and> fs (snd (ensure_local_repo repo_path url token w)) = fs w
         \<and> launched (snd (ensure_local_repo repo_path url token w)) = launched w
         \<and> libcalls (snd (ensure_local_repo repo_path url token w)) = libcalls w"
proof (cases "markup_error w (warning_sign @ '' Repository not found at: [yellow]'' @ repo_path
                           @ ''[/yellow]'' @ NL)")
  case None
  with assms show ?thesis
    by (simp add: ensure_local_repo_def io_seq_def io_bind_def io_ret_def console_print_eq
        plain_lines ask_eq world_sel printed_def asked_def)
next
  case (Some m)
  with assms show ?thesis
    by (simp add: ensure_local_repo_def io_seq_def io_bind_def console_print_eq)
qed

theorem declined_clone_leaves_world_witness:
  "answers (demo {} [''2''] (demo_git (fails ''pull'' 1))) = [''2''] \<and>
   markup_error (demo {} [''2''] (demo_git (fails ''pull'' 1)))
     (warning_sign @ '' Repository not found at: [yellow]'' @ ''/tmp/x'' @ ''[/yellow]'' @ NL)
     = None \<and>
   fst (ensure_local_repo ''/tmp/x'' None (Some ''tok'')
          (demo {} [''2''] (demo_git (fails ''pull'' 1)))) = Ok False \<and>
   fs (snd (ensure_local_repo ''/tmp/x'' None (Some ''tok'')
          (demo {} [''2''] (demo_git (fails ''pull'' 1)))))
     = fs (demo {} [''2''] (demo_git (fails ''pull'' 1)))"
proof -
  let ?W = "demo {} [''2''] (demo_git (fails ''pull'' 1))"
  have a: "\<not> (isdir ?W ''/tmp/x'' \<and> isdir ?W (path_join ''/tmp/x'' ''.git''))"
    by (simp add: isdir_def demo_def)
  have b: "answers ?W = ''2'' # []"
    by (simp add: demo_def)
  have c: "py_strip (if ''2'' = [] then ''2'' else py_strip ''2'') \<noteq> ''1''"
    by (simp add: py_strip_def isspace_def)
  have d: "markup_error ?W
     (warning_sign @ '' Repository not found at: [yellow]'' @ ''/tmp/x'' @ ''[/yellow]'' @ NL)
     = None"
    by code_simp
  show ?thesis
    using b d declined_clone_leaves_world [OF a b c, of None "Some ''tok''"] by simp
qed

text \<open>
  Claim C1. The path is no checkout, the user chooses to clone and enters
  \<open>https://github.com/u/r.git\<close>, the token is \<open>SECRET\<close>, and \<open>git clone\<close> exits with
  status 128. The token is injected into the URL of the one process launched, and
  the error line on the console and the log entry of the failed clone both hold the
  token: they print the \<open>CalledProcessError\<close>, whose text holds the command.
\<close>

theorem clone_failure_shows_token:
  "(case ensure_local_repo ''/tmp/x'' None (Some ''SECRET'')
           (demo {} [''1'', ''https://github.com/u/r.git''] (demo_git (fails ''clone'' 128))) of
      (r, w') \<Rightarrow>
        r = Ok False \<and>
        launched w' =
          [([''git'', ''clone'', ''https://SECRET@github.com/u/r.git'', ''/tmp/x''],
            Exited 128 [])] \<and>
        last (console w') = cross_mark @ '' Failed to clone repository: '' @ ''Command ''
          @ [squote] @ ''['' @ [squote] @ ''git'' @ [squote] @ '', '' @ [squote] @ ''clone''
          @ [squote] @ '', '' @ [squote] @ ''https://SECRET@github.com/u/r.git'' @ [squote]
          @ '', '' @ [squote] @ ''/tmp/x'' @ [squote] @ '']'' @ [squote]
          @ '' returned non-zero exit status 128.'' \<and>
        py_in ''SECRET'' (last (console w')) \<and>
        py_in ''SECRET'' (last (logfile w')))"
  by code_simp

section \<open>Token injection\<close>

text \<open>
  Claim C6. The URL handed to \<open>git clone\<close> is the entered URL whenever that URL
  carries credentials; it differs from the entered URL only for an \<open>https://\<close> URL
  without an \<open>@\<close>, hence without credentials. In the repair of the remote, when the
  \<open>origin\<close> URL read from git carries credentials or is not an \<open>https://\<close> URL,
  reading it is the only process launched: no \<open>set-url\<close> follows and nothing is
  logged.
\<close>

theorem token_injection_only_plain_https:
  "(spec_has_userinfo url \<longrightarrow> safe_url url token = url) \<and>
   (safe_url url token \<noteq> url \<longrightarrow>
      startswith url ''https://'' \<and> \<not> py_in ''@'' url \<and> \<not> spec_has_userinfo url) \<and>
   (\<forall>out f1. exec w [''git'', ''-C'', repo_path, ''remote'', ''get-url'', ''origin''] (fs w)
                = (Exited 0 out, f1) \<and>
              (spec_has_userinfo (py_strip out) \<or> \<not> startswith (py_strip out) ''https://'') \<longrightarrow>
      fix_local_remote_with_token repo_path tok w =
        (Ok (), w\<lparr>fs := f1,
                  launched := launched w @
                    [([''git'', ''-C'', repo_path, ''remote'', ''get-url'', ''origin''],
                      Exited 0 out)]\<rparr>))"
proof (intro conjI allI impI)
  assume "spec_has_userinfo url"
  then show "safe_url url token = url"
    by (auto simp: safe_url_def dest: userinfo_has_at split: option.splits)
next
  assume a: "safe_url url token \<noteq> url"
  then show "startswith url ''https://''" by (auto simp: safe_url_def split: option.splits if_splits)
  from a show "\<not> py_in ''@'' url" by (auto simp: safe_url_def split: option.splits if_splits)
  from a show "\<not> spec_has_userinfo url"
    by (auto simp: safe_url_def dest: userinfo_has_at split: option.splits if_splits)
next
  fix out f1
  assume "exec w [''git'', ''-C'', repo_path, ''remote'', ''get-url'', ''origin''] (fs w)
                = (Exited 0 out, f1) \<and>
              (spec_has_userinfo (py_strip out) \<or> \<not> startswith (py_strip out) ''https://'')"
  then show "fix_local_remote_with_token repo_path tok w =
        (Ok (), w\<lparr>fs := f1,
                  launched := launched w @
                    [([''git'', ''-C'', repo_path, ''remote'', ''get-url'', ''origin''],
                      Exited 0 out)]\<rparr>)"
    by (auto simp: fix_local_remote_with_token_def check_output_def Let_def dest: userinfo_has_at)
qed

theorem token_injection_only_plain_https_witness:
  "spec_has_userinfo ''https://user:pw@github.com/u/r.git'' \<and>
   safe_url ''https://user:pw@github.com/u/r.git'' (Some ''tok'')
     = ''https://user:pw@github.com/u/r.git'' \<and>
   safe_url ''https://github.com/u/r.git'' (Some ''tok'') \<noteq> ''https://github.com/u/r.git'' \<and>
   startswith ''https://github.com/u/r.git'' ''https://'' \<and>
   \<not> spec_has_userinfo ''https://github.com/u/r.git'' \<and>
   launched (snd (fix_local_remote_with_token ''/r'' ''tok''
       (demo {} [] (demo_remote ''https://user:pw@github.com/u/r.git''))))
     = [([''git'', ''-C'', ''/r'', ''remote'', ''get-url'', ''origin''],
         Exited 0 (''https://user:pw@github.com/u/r.git'' @ NL))]"
proof -
  let ?U = "''https://user:pw@github.com/u/r.git''"
  let ?V = "''https://github.com/u/r.git''"
  let ?W = "demo {} [] (demo_remote ?U)"
  have a: "spec_has_userinfo ?U" by code_simp
  have b: "safe_url ?V (Some ''tok'') \<noteq> ?V" by code_simp
  have c: "exec ?W [''git'', ''-C'', ''/r'', ''remote'', ''get-url'', ''origin''] (fs ?W)
             = (Exited 0 (?U @ NL), fs ?W)"
    by (simp add: demo_defs)
  have d: "spec_has_userinfo (py_strip (?U @ NL))" by code_simp
  note t1 = token_injection_only_plain_https [of ?U "Some ''tok''" ?W "''/r''" "''tok''"]
  note t2 = token_injection_only_plain_https [of ?V "Some ''tok''" ?W "''/r''" "''tok''"]
  have e: "safe_url ?U (Some ''tok'') = ?U"
    using t1 a by blast
  have f: "startswith ?V ''https://'' \<and> \<not> spec_has_userinfo ?V"
    using t2 b by blast
  have g: "fix_local_remote_with_token ''/r'' ''tok'' ?W =
        (Ok (), ?W\<lparr>fs := fs ?W,
                  launched := launched ?W @
                    [([''git'', ''-C'', ''/r'', ''remote'', ''get-url'', ''origin''],
                      Exited 0 (?U @ NL))]\<rparr>)"
    using t1 c d by blast
  show ?thesis
    using a b e f g by (simp add: demo_def)
qed

section \<open>Pull, Push, Sync\<close>

text \<open>
  Claim C2. When the pull of a Sync action is launched and exits with a non-zero
  status, the \<open>try\<close> block ends by raising the \<open>CalledProcessError\<close> of the pull,
  and the pull is the only process of the action, whatever its handler does: nothing
  is staged, committed or pushed.
\<close>

theorem sync_stops_at_failed_pull:
  assumes "([''git'', ''-C'', repo_path, ''pull''], Exited rc out)
             \<in> set (new_launched w (snd (menu_action repo_path ''3'' w)))"
    and "rc \<noteq> 0"
  shows "fst (menu_try repo_path ''3'' w)
           = Raise (CalledProcessError [''git'', ''-C'', repo_path, ''pull''] rc)
         \<and> new_launched w (snd (menu_try repo_path ''3'' w))
           = [([''git'', ''-C'', repo_path, ''pull''], Exited rc out)]
         \<and> new_launched w (snd (menu_action repo_path ''3'' w))
           = [([''git'', ''-C'', repo_path, ''pull''], Exited rc out)]"
proof -
  let ?L = "[''git'', ''-C'', repo_path, ''pull'']"
  let ?W = "printed (NL @ arrows_repeat @ '' Syncing repository (pull then push)...'') w"
  obtain r0 w1 where t: "menu_try repo_path ''3'' w = (r0, w1)" by force
  note ma = menu_action_eq [OF t]
  obtain r1 f1 where e: "exec w ?L (fs w) = (r1, f1)" by force
  show ?thesis
  proof (cases "markup_error w (running_in repo_path)")
    case (Some m)
    then show ?thesis
      using t ma assms sync_action_raise [of w repo_path m] by (auto simp: trace_simps)
  next
    case None
    note se = sync_action_eq [OF None e]
    show ?thesis
    proof (cases r1)
      case (ExecError m)
      then show ?thesis
        using t ma assms se by (auto simp: trace_simps)
    next
      case (Exited rc1 o1)
      show ?thesis
      proof (cases "rc1 = 0")
        case False
        then show ?thesis
          using t ma assms se Exited by (auto simp: trace_simps split: option.splits)
      next
        case z: True
        show ?thesis
        proof (cases "answers w")
          case Nil
          then show ?thesis
            using t ma assms se Exited z by (auto simp: trace_simps)
        next
          case (Cons a ps)
          let ?W0 = "asked ''Commit message (default)'' ps (shell ?L r1 f1 ?W)"
          have h1: "markup_error ?W0 (check_mark @ '' Repository synced successfully!'' @ NL)
                      = None"
            and h2: "markup_error ?W0 (info_sign @ '' Nothing to sync (working tree clean).'' @ NL)
                      = None"
            by (rule plain_lines)+
          have cp: "commit_push repo_path
                   (if a = [] then ''Auto sync via Unified Manager'' else py_strip a)
                   (check_mark @ '' Repository synced successfully!'' @ NL)
                   (''Synced repository '' @ repo_path @ '' with message: ''
                      @ (if a = [] then ''Auto sync via Unified Manager'' else py_strip a))
                   (info_sign @ '' Nothing to sync (working tree clean).'' @ NL)
                   (''Nothing to sync in '' @ repo_path) ?W0 = (r0, w1)"
            using t se Cons Exited z by simp
          show ?thesis
            using cp ma assms Exited z
            by (cases rule: commit_push_cases [OF h1 h2, where p = repo_path
                  and msg = "if a = [] then ''Auto sync via Unified Manager'' else py_strip a"
                  and oke = "''Synced repository '' @ repo_path @ '' with message: ''
                      @ (if a = [] then ''Auto sync via Unified Manager'' else py_strip a)"
                  and ne = "''Nothing to sync in '' @ repo_path"])
               (auto simp: trace_simps split: option.splits)
        qed
      qed
    qed
  qed
qed

theorem sync_stops_at_failed_pull_witness:
  "([''git'', ''-C'', ''/r'', ''pull''], Exited 1 [])
       \<in> set (new_launched (demo {} [] (demo_git (fails ''pull'' 1)))
           (snd (menu_action ''/r'' ''3'' (demo {} [] (demo_git (fails ''pull'' 1)))))) \<and>
   fst (menu_try ''/r'' ''3'' (demo {} [] (demo_git (fails ''pull'' 1))))
     = Raise (CalledProcessError [''git'', ''-C'', ''/r'', ''pull''] 1) \<and>
   new_launched (demo {} [] (demo_git (fails ''pull'' 1)))
       (snd (menu_action ''/r'' ''3'' (demo {} [] (demo_git (fails ''pull'' 1)))))
     = [([''git'', ''-C'', ''/r'', ''pull''], Exited 1 [])]"
proof -
  let ?W = "demo {} [] (demo_git (fails ''pull'' 1))"
  have a: "([''git'', ''-C'', ''/r'', ''pull''], Exited 1 [])
       \<in> set (new_launched ?W (snd (menu_action ''/r'' ''3'' ?W)))"
    by code_simp
  have b: "(1::int) \<noteq> 0" by simp
  show ?thesis
    using a sync_stops_at_failed_pull [OF a b] by simp
qed



text \<open>
  Claim C7. The checkout is \<open>/tmp/a[/b\<close>, the commit message is \<open>fix\<close>, staging
  and the commit exit with status 0 and the push with status 1. The commit stays
  (one commit, nothing launched after the push), but the failure of the push is not
  reported: the line the handler prints holds the command, \<open>[/b', 'push']\<close> in it
  reads as a closing tag, the print raises \<open>MarkupError\<close>, nothing is logged and
  the exception leaves the action.
\<close>

theorem failed_push_not_reported:
  "(case menu_action ''/tmp/a[/b'' ''2'' (demo {} [''fix''] (demo_git (fails ''push'' 1))) of
      (r, w') \<Rightarrow>
        r = Raise (OtherException (''closing tag '' @ [squote] @ ''[/b'' @ [squote] @ '', ''
              @ [squote] @ ''push'' @ [squote] @ '']'' @ [squote]
              @ '' at position 52 doesn'' @ [squote] @ ''t match any open tag'')) \<and>
        launched w' =
          [([''git'', ''-C'', ''/tmp/a[/b'', ''add'', ''.''], Exited 0 []),
           ([''git'', ''-C'', ''/tmp/a[/b'', ''commit'', ''-m'', ''fix''], Exited 0 []),
           ([''git'', ''-C'', ''/tmp/a[/b'', ''push''], Exited 1 [])] \<and>
        rest (fs w') = 1 \<and>
        logfile w' = [] \<and>
        console w' =
          [NL @ arrow_up @ '' Pushing local changes...'',
           ''Commit message (default)'',
           rocket @ '' Running: git -C /tmp/a[/b add .'',
           rocket @ '' Running: git -C /tmp/a[/b push''])"
  by code_simp

text \<open>
  Claim C9. The checkout is \<open>/tmp/a[/b\<close>, the user chooses Pull and would choose
  Exit next, and \<open>git pull\<close> exits with status 1. The handler's print of the
  \<open>CalledProcessError\<close> raises \<open>MarkupError\<close>, so the failure is neither printed
  nor logged, and the exception leaves the handler and the loop: the loop does not
  go on to read the next choice.
\<close>

theorem pull_failure_ends_loop:
  "(case local_loop ''/tmp/a[/b'' (demo {} [''1'', ''4''] (demo_git (fails ''pull'' 1))) of
      (r, w') \<Rightarrow>
        r = Raise (OtherException (''closing tag '' @ [squote] @ ''[/b'' @ [squote] @ '', ''
              @ [squote] @ ''pull'' @ [squote] @ '']'' @ [squote]
              @ '' at position 52 doesn'' @ [squote] @ ''t match any open tag'')) \<and>
        launched w' = [([''git'', ''-C'', ''/tmp/a[/b'', ''pull''], Exited 1 [])] \<and>
        logfile w' = [] \<and>
        answers w' = [''4''] \<and>
        last (console w') = rocket @ '' Running: git -C /tmp/a[/b pull'')"
  by code_simp

section \<open>Upload\<close>

text \<open>
  Claim C8. The path to upload is \<open>a[/b]\<close>, which does not exist, so the copy
  raises \<open>[Errno 2] No such file or directory: 'a[/b]'\<close>. The handler's print of
  that error raises \<open>MarkupError\<close>: the scratch directory is removed, once and as
  the last library call, but the error is neither printed nor logged and the
  exception leaves the function.
\<close>

theorem upload_error_not_reported:
  "(case upload_file_to_github demo_repo ''a[/b]'' ''main'' ''msg'' ''tok''
           ((demo {} [] (demo_git (fails ''pull'' 1)))\<lparr>lib := demo_missing\<rparr>) of
      (r, w') \<Rightarrow>
        r = Raise (OtherException (''closing tag '' @ [squote] @ ''[/b]'' @ [squote]
              @ '' at position 71 doesn'' @ [squote] @ ''t match any open tag'')) \<and>
        libcalls w' =
          [CloneFrom ''https://tok@github.com/u/r.git'' ''/tmp/gh_clone_0'' ''main'',
           OpenRepo ''/tmp/gh_clone_0'',
           Copy2 ''a[/b]'' ''/tmp/gh_clone_0/b]'',
           RmTree ''/tmp/gh_clone_0''] \<and>
        logfile w' = [] \<and>
        console w' = [''[yellow]Cloning repo r into /tmp/gh_clone_0[/yellow]''])"
  by code_simp

section \<open>Deleting a branch\<close>

text \<open>
  Claim C10. When the name entered is the default branch of the repository handle,
  \<open>delete_branch\<close> shows the prompt and the warning and returns: the world differs in
  the console and the consumed answer only, so no API call was made and nothing was
  logged.
\<close>

theorem default_branch_not_deleted:
  assumes "answers w = a # pending" and "py_strip a = default_branch repo"
  shows "delete_branch repo w =
           (Ok (),
            w\<lparr>answers := pending,
              console := console w @
                [''Branch name to delete'',
                 ''[yellow]Cannot delete the default branch via this tool. Change default first.[/yellow]'']\<rparr>)"
  using assms
  by (simp add: delete_branch_def io_bind_def ask_def console_print_def Let_def
      guard_line_renders)

theorem default_branch_not_deleted_witness:
  "py_strip ''main'' = default_branch demo_repo \<and>
   delete_branch demo_repo (demo {} [''main''] (demo_git (fails ''pull'' 1)))
     = (Ok (),
        (demo {} [''main''] (demo_git (fails ''pull'' 1)))
          \<lparr>answers := [],
           console := [''Branch name to delete'',
             ''[yellow]Cannot delete the default branch via this tool. Change default first.[/yellow]'']\<rparr>)"
proof -
  let ?W = "demo {} [''main''] (demo_git (fails ''pull'' 1))"
  have a: "answers ?W = ''main'' # []" by (simp add: demo_def)
  have b: "py_strip ''main'' = default_branch demo_repo"
    by (simp add: py_strip_def isspace_def demo_repo_def)
  show ?thesis
    using b default_branch_not_deleted [OF a b] by (simp add: demo_def)
qed


end
